theory Spec2Isabelle
  imports
    Main
    "HOL-Library.Char_ord"
    "HOL-Library.List_Lexorder"
    "HOL-Library.Sublist"
    "HOL-Library.Word"
begin

section \<open>Python values, exceptions and the host platform\<close>

text \<open>
  The two scripts handle JSON-shaped Python values. A value is \<open>None\<close>, a bool, an
  int, a str, a list or a dict with str keys; a dict is an association list in
  insertion order. A Python \<open>str\<close> is a \<open>string\<close> with one \<^typ>\<open>char\<close>
  per code point, so the model covers the code points up to U+00FF; on them the
  order of \<^typ>\<open>string\<close> (lexicographic, by code point) is the order Python
  compares strings with. JSON floats are not modelled.
\<close>

datatype pyval =
    PNone
  | PBool bool
  | PInt int
  | PStr string
  | PList "pyval list"
  | PDict "(string \<times> pyval) list"

type_synonym pydict = "(string \<times> pyval) list"

text \<open>
  Exceptions are values. \<open>DemistoException\<close>, \<open>ValueError\<close> and
  \<open>PlainException\<close> (a bare \<open>Exception\<close>) carry the message the source raises
  them with; the exceptions the interpreter raises (\<open>TypeError\<close>,
  \<open>AttributeError\<close>, \<open>IndexError\<close>, \<open>KeyError\<close> with its key) carry no
  message. \<open>OtherError\<close> is any other exception class a library may raise.
\<close>

datatype exn =
    DemistoException string
  | PlainException string
  | ValueError string
  | KeyError pyval
  | TypeError
  | AttributeError
  | IndexError
  | OtherError string

text \<open>Truthiness, as \<open>if x:\<close> and \<open>not x\<close> read it.\<close>

fun truthy :: "pyval \<Rightarrow> bool" where
  "truthy PNone = False"
| "truthy (PBool b) = b"
| "truthy (PInt n) = (n \<noteq> 0)"
| "truthy (PStr s) = (s \<noteq> [])"
| "truthy (PList xs) = (xs \<noteq> [])"
| "truthy (PDict d) = (d \<noteq> [])"

text \<open>\<open>d.get(key, default)\<close> on a dict.\<close>

definition dict_get :: "pydict \<Rightarrow> string \<Rightarrow> pyval \<Rightarrow> pyval" where
  "dict_get d k dflt = (case map_of d k of None \<Rightarrow> dflt | Some v \<Rightarrow> v)"

text \<open>
  \<open>x.get(key, default)\<close> on any value: only a dict has the method, every other
  value raises \<open>AttributeError\<close>.
\<close>

fun py_get :: "pyval \<Rightarrow> string \<Rightarrow> pyval \<Rightarrow> exn + pyval" where
  "py_get (PDict d) k dflt = Inr (dict_get d k dflt)"
| "py_get _ k dflt = Inl AttributeError"

text \<open>
  \<open>a == b\<close>: a bool is an int (\<open>True == 1\<close>), lists are equal elementwise, dicts
  are equal when they hold equal values under the same keys, in any order.
\<close>

fun py_eq :: "pyval \<Rightarrow> pyval \<Rightarrow> bool" where
  "py_eq PNone PNone = True"
| "py_eq (PBool a) (PBool b) = (a = b)"
| "py_eq (PBool a) (PInt n) = ((if a then 1 else 0) = n)"
| "py_eq (PInt n) (PBool a) = (n = (if a then 1 else 0))"
| "py_eq (PInt a) (PInt b) = (a = b)"
| "py_eq (PStr a) (PStr b) = (a = b)"
| "py_eq (PList xs) (PList ys) = list_all2 py_eq xs ys"
| "py_eq (PDict d) (PDict e) =
     (list_all (\<lambda>(k, v). case map_of e k of None \<Rightarrow> False | Some v' \<Rightarrow> py_eq v v') d
      \<and> list_all (\<lambda>(k, v). map_of d k \<noteq> None) e)"
| "py_eq _ _ = False"

text \<open>
  \<open>a >= b\<close>: defined between two strs (lexicographic), between ints and bools,
  and between two lists (decided by the first pair of elements that are not
  equal); every other pair of operands raises \<open>TypeError\<close>.
\<close>

fun py_ge :: "pyval \<Rightarrow> pyval \<Rightarrow> exn + bool"
  and py_ge_list :: "pyval list \<Rightarrow> pyval list \<Rightarrow> exn + bool" where
  "py_ge (PStr a) (PStr b) = Inr (b \<le> a)"
| "py_ge (PInt a) (PInt b) = Inr (b \<le> a)"
| "py_ge (PInt a) (PBool b) = Inr ((if b then 1 else 0) \<le> a)"
| "py_ge (PBool a) (PInt b) = Inr (b \<le> (if a then 1 else 0))"
| "py_ge (PBool a) (PBool b) = Inr (a \<or> \<not> b)"
| "py_ge (PList xs) (PList ys) = py_ge_list xs ys"
| "py_ge _ _ = Inl TypeError"
| "py_ge_list [] [] = Inr True"
| "py_ge_list [] (y # ys) = Inr False"
| "py_ge_list (x # xs) [] = Inr True"
| "py_ge_list (x # xs) (y # ys) = (if py_eq x y then py_ge_list xs ys else py_ge x y)"

text \<open>
  \<open>for x in v\<close>: a list yields its elements, a str its characters, a dict its
  keys; nothing else is iterable.
\<close>

fun py_iter :: "pyval \<Rightarrow> exn + pyval list" where
  "py_iter (PList xs) = Inr xs"
| "py_iter (PStr s) = Inr (map (\<lambda>c. PStr [c]) s)"
| "py_iter (PDict d) = Inr (map (\<lambda>(k, v). PStr k) d)"
| "py_iter _ = Inl TypeError"

text \<open>\<open>v[0]\<close>. The keys of a dict are strs, so \<open>d[0]\<close> finds nothing.\<close>

fun py_index0 :: "pyval \<Rightarrow> exn + pyval" where
  "py_index0 (PList []) = Inl IndexError"
| "py_index0 (PList (x # xs)) = Inr x"
| "py_index0 (PStr []) = Inl IndexError"
| "py_index0 (PStr (c # cs)) = Inr (PStr [c])"
| "py_index0 (PDict d) = Inl (KeyError (PInt 0))"
| "py_index0 _ = Inl TypeError"

text \<open>\<open>d[key] = v\<close> and \<open>d.update(other)\<close>: a key keeps its place, a new key goes last.\<close>

fun dict_set :: "pydict \<Rightarrow> string \<Rightarrow> pyval \<Rightarrow> pydict" where
  "dict_set [] k v = [(k, v)]"
| "dict_set ((k', v') # d) k v = (if k' = k then (k, v) # d else (k', v') # dict_set d k v)"

definition dict_update :: "pydict \<Rightarrow> pydict \<Rightarrow> pydict" where
  "dict_update d other = foldl (\<lambda>acc (k, v). dict_set acc k v) d other"

text \<open>
  \<open>x.pop(key)\<close> with a str key: a dict without the key raises \<open>KeyError\<close>, a list
  takes an index only (\<open>TypeError\<close>), no other value has the method. The result
  is the dict without the key.
\<close>

fun py_pop :: "pyval \<Rightarrow> string \<Rightarrow> exn + pyval" where
  "py_pop (PDict d) k =
     (if map_of d k = None then Inl (KeyError (PStr k))
      else Inr (PDict (filter (\<lambda>(k', v). k' \<noteq> k) d)))"
| "py_pop (PList xs) k = Inl TypeError"
| "py_pop _ k = Inl AttributeError"

text \<open>Sequencing of computations that may raise.\<close>

definition and_then :: "exn + 'a \<Rightarrow> ('a \<Rightarrow> exn + 'b) \<Rightarrow> exn + 'b" where
  "and_then m f = (case m of Inl e \<Rightarrow> Inl e | Inr x \<Rightarrow> f x)"

text \<open>
  The host platform and the libraries the scripts call are parameters of the
  model; every theorem holds for each of them.
  \<^item> \<open>respond\<close> is the vendor API behind \<open>BaseClient._http_request\<close>: the response
    to a request (method, URL suffix, JSON body), which may depend on every
    request made before it, or the exception the call raises.
  \<^item> \<open>dateparse v\<close> is \<open>dateparser.parse(v).strftime(DATE_FORMAT)\<close>.
  \<^item> \<open>json_dumps\<close> is \<open>json.dumps\<close>, \<open>py_format\<close> the text a value has inside an
    f-string.
  \<^item> \<open>arg_to_number\<close>, \<open>argToList\<close>, \<open>assign_params\<close>, \<open>tableToMarkdown\<close> and
    \<open>remove_empty_elements\<close> are the functions of CommonServerPython.
  \<^item> \<open>codec_decode enc b\<close> is \<open>b.decode(enc)\<close>.
\<close>

type_synonym request = "string \<times> string \<times> pyval option"

record host =
  respond :: "request list \<Rightarrow> request \<Rightarrow> exn + pyval"
  dateparse :: "pyval \<Rightarrow> exn + string"
  json_dumps :: "pyval \<Rightarrow> string"
  py_format :: "pyval \<Rightarrow> string"
  arg_to_number :: "pyval \<Rightarrow> exn + pyval"
  argToList :: "pyval \<Rightarrow> pyval list"
  assign_params :: "pydict \<Rightarrow> pydict"
  tableToMarkdown :: "string \<Rightarrow> pyval list \<Rightarrow> exn + string"
  remove_empty_elements :: "pyval \<Rightarrow> pyval"
  codec_decode :: "string \<Rightarrow> 8 word list \<Rightarrow> exn + string"

text \<open>
  What a run changes: the requests sent so far, and the object last given to
  \<open>demisto.setLastRun\<close>.
\<close>

record world =
  requests :: "request list"
  last_run_store :: pydict

definition http_request ::
  "host \<Rightarrow> world \<Rightarrow> string \<Rightarrow> string \<Rightarrow> pyval option \<Rightarrow> (exn + pyval) \<times> world" where
  "http_request h w method url_suffix json_data =
     (respond h (requests w) (method, url_suffix, json_data),
      w\<lparr>requests := requests w @ [(method, url_suffix, json_data)]\<rparr>)"

section \<open>SymantecDLPV2: constants and the client\<close>

definition INCIDENT_TYPE_MAPPING :: "(string \<times> string) list" where
  "INCIDENT_TYPE_MAPPING =
     [(''Network'', ''NETWORK''), (''Discover'', ''DISCOVER''), (''Endpoint'', ''ENDPOINT'')]"

definition INCIDENT_SEVERITY_MAPPING :: "(string \<times> int) list" where
  "INCIDENT_SEVERITY_MAPPING = [(''Info'', 4), (''Low'', 3), (''Medium'', 2), (''High'', 1)]"

definition INCIDENTS_LIST_BODY :: pyval where
  "INCIDENTS_LIST_BODY =
     PList (map (\<lambda>n. PDict [(''name'', PStr n)])
       [''incidentId'', ''incidentStatusId'', ''creationDate'', ''detectionDate'',
        ''severityId'', ''messageSource'', ''messageTypeId'', ''policyVersion'',
        ''policyId'', ''matchCount'', ''detectionServerId''])"

definition create_filter_dict :: "string \<Rightarrow> string \<Rightarrow> pyval \<Rightarrow> string \<Rightarrow> pyval" where
  "create_filter_dict filter_type filter_by filter_value operator =
     PDict [(''filterType'', PStr filter_type),
            (''operandOne'', PDict [(''name'', PStr filter_by)]),
            (''operandTwoValues'', filter_value),
            (''operator'', PStr operator)]"

text \<open>
  The list \<open>data['filter']['filters']\<close> that \<open>Client.get_incidents_request\<close>
  fills, one filter for each argument that is truthy.
\<close>

definition incidents_request_filters :: "pyval \<Rightarrow> pyval \<Rightarrow> pyval \<Rightarrow> pyval \<Rightarrow> pyval list" where
  "incidents_request_filters creation_date status_id severity incident_type =
     (if truthy creation_date then
        [create_filter_dict ''localDateTime'' ''creationDate'' (PList [creation_date]) ''GT'']
      else [])
     @ (if truthy status_id then
          [create_filter_dict ''long'' ''incidentStatusId'' status_id ''IN'']
        else [])
     @ (if truthy severity then
          [create_filter_dict ''long'' ''severityId'' severity ''IN'']
        else [])
     @ (if truthy incident_type then
          [create_filter_dict ''string'' ''messageSource'' incident_type ''IN'']
        else [])"

text \<open>
  The dict \<open>data\<close> that \<open>Client.get_incidents_request\<close> builds and posts. The
  defaults of the arguments are \<open>None\<close>, and \<open>MAX_PAGE_SIZE\<close> for \<open>limit\<close>.
\<close>

definition incidents_request_data ::
  "pyval \<Rightarrow> pyval \<Rightarrow> pyval \<Rightarrow> pyval \<Rightarrow> pyval \<Rightarrow> pyval \<Rightarrow> pydict" where
  "incidents_request_data creation_date status_id severity incident_type limit order_by =
     [(''limit'', limit), (''select'', INCIDENTS_LIST_BODY)]
     @ (if truthy order_by then
          [(''orderBy'',
            PList [PDict [(''order'', PStr ''ASC''),
                          (''field'', PDict [(''name'', PStr ''creationDate'')])]])]
        else [])
     @ (if truthy creation_date \<or> truthy status_id \<or> truthy severity \<or> truthy incident_type
        then
          [(''filter'',
            PDict [(''booleanOperator'', PStr ''AND''),
                   (''filterType'', PStr ''booleanLogic''),
                   (''filters'',
                    PList (incidents_request_filters creation_date status_id severity
                             incident_type))])]
        else [])"

definition incidents_url :: string where
  "incidents_url = ''/ProtectManager/webservices/v2/incidents''"

definition get_incidents_request ::
  "host \<Rightarrow> world \<Rightarrow> pyval \<Rightarrow> pyval \<Rightarrow> pyval \<Rightarrow> pyval \<Rightarrow> pyval \<Rightarrow> pyval
     \<Rightarrow> (exn + pyval) \<times> world" where
  "get_incidents_request h w creation_date status_id severity incident_type limit order_by =
     http_request h w ''POST'' incidents_url
       (Some (PDict (incidents_request_data creation_date status_id severity incident_type
                       limit order_by)))"

definition get_incident_static_attributes_request ::
  "host \<Rightarrow> world \<Rightarrow> pyval \<Rightarrow> (exn + pyval) \<times> world" where
  "get_incident_static_attributes_request h w incident_id =
     http_request h w ''GET''
       (incidents_url @ ''/'' @ py_format h incident_id @ ''/staticAttributes'') None"

definition get_incident_editable_attributes_request ::
  "host \<Rightarrow> world \<Rightarrow> pyval \<Rightarrow> (exn + pyval) \<times> world" where
  "get_incident_editable_attributes_request h w incident_id =
     http_request h w ''GET''
       (incidents_url @ ''/'' @ py_format h incident_id @ ''/editableAttributes'') None"

definition get_incident_history_request ::
  "host \<Rightarrow> world \<Rightarrow> pyval \<Rightarrow> (exn + pyval) \<times> world" where
  "get_incident_history_request h w incident_id =
     http_request h w ''GET''
       (incidents_url @ ''/'' @ py_format h incident_id @ ''/history'') None"

section \<open>SymantecDLPV2: helper functions\<close>

text \<open>
  A loop that appends the results computed for each element in turn and stops at
  the first exception.
\<close>

fun for_each :: "('a \<Rightarrow> exn + 'b list) \<Rightarrow> 'a list \<Rightarrow> exn + 'b list" where
  "for_each f [] = Inr []"
| "for_each f (x # xs) =
     (case f x of
        Inl e \<Rightarrow> Inl e
      | Inr ys \<Rightarrow> (case for_each f xs of Inl e \<Rightarrow> Inl e | Inr zs \<Rightarrow> Inr (ys @ zs)))"

definition get_severity_name_by_id :: "pyval \<Rightarrow> pyval" where
  "get_severity_name_by_id severity =
     (case find (\<lambda>(severity_name, severity_num). py_eq (PInt severity_num) severity)
             INCIDENT_SEVERITY_MAPPING of
        None \<Rightarrow> PNone
      | Some (severity_name, severity_num) \<Rightarrow> PStr severity_name)"

definition parse_creation_date :: "host \<Rightarrow> pyval \<Rightarrow> exn + pyval" where
  "parse_creation_date h creation_date =
     (if truthy creation_date then
        (case dateparse h creation_date of Inl e \<Rightarrow> Inl e | Inr s \<Rightarrow> Inr (PStr s))
      else Inr creation_date)"

section \<open>Pagination: \<open>get_incidents_of_current_page\<close>\<close>

definition MAX_PAGE_SIZE :: int where
  "MAX_PAGE_SIZE = 50"

text \<open>
  A slice bound of \<open>xs[start:stop]\<close> on a list of length \<open>n\<close>: a negative bound
  counts from the end, and every bound is clipped to \<open>0..n\<close>.
\<close>

definition slice_bound :: "nat \<Rightarrow> int \<Rightarrow> nat" where
  "slice_bound n i = (if i < 0 then nat (max 0 (int n + i)) else min (nat i) n)"

definition py_slice :: "'a list \<Rightarrow> int \<Rightarrow> int \<Rightarrow> 'a list" where
  "py_slice xs start stop =
     (let lo = slice_bound (length xs) start;
          hi = slice_bound (length xs) stop
      in take (hi - lo) (drop lo xs))"

text \<open>
  \<open>limit\<close>, \<open>page\<close> and \<open>page_size\<close> are results of \<open>arg_to_number\<close>: an int
  or \<open>None\<close>.
\<close>

definition get_incidents_of_current_page ::
  "int option \<Rightarrow> int option \<Rightarrow> int option \<Rightarrow> 'a list \<Rightarrow> exn + 'a list" where
  "get_incidents_of_current_page limit page page_size incidents_list =
     (case (page, page_size) of
        (Some p, Some ps) \<Rightarrow>
          if p \<le> 0 then Inl (PlainException ''Chosen page number must be greater than 0'')
          else
            let start = (p - 1) * ps;
                stop = p * ps
            in Inr (py_slice incidents_list start stop)
      | _ \<Rightarrow>
          let limit' = (case limit of
                          None \<Rightarrow> MAX_PAGE_SIZE
                        | Some l \<Rightarrow> if l \<noteq> 0 then l else MAX_PAGE_SIZE)
          in Inr (py_slice incidents_list 0 limit'))"

section \<open>Custom attributes of an update: \<open>build_custom_attributes_update\<close>\<close>

text \<open>\<open>s.split(sep)\<close> for a one-character separator: never an empty list.\<close>

fun py_split :: "char \<Rightarrow> string \<Rightarrow> string list" where
  "py_split sep [] = [[]]"
| "py_split sep (c # cs) =
     (if c = sep then [] # py_split sep cs
      else (c # hd (py_split sep cs)) # tl (py_split sep cs))"

text \<open>
  \<open>str.isdigit\<close>: the string is not empty and every character is a digit. Up to
  U+00FF the digits are the decimal digits \<open>0\<close> to \<open>9\<close> and the superscript
  digits U+00B2, U+00B3 and U+00B9, which Unicode classes as digits but not as
  decimal digits.
\<close>

definition is_decimal_char :: "char \<Rightarrow> bool" where
  "is_decimal_char c = (CHR ''0'' \<le> c \<and> c \<le> CHR ''9'')"

definition is_digit_char :: "char \<Rightarrow> bool" where
  "is_digit_char c = (is_decimal_char c \<or> c = CHR 0xB2 \<or> c = CHR 0xB3 \<or> c = CHR 0xB9)"

definition py_isdigit :: "string \<Rightarrow> bool" where
  "py_isdigit s = (s \<noteq> [] \<and> list_all is_digit_char s)"

text \<open>
  \<open>int(s)\<close> for a string without sign, blanks and underscores (all a string that
  passed \<open>isdigit\<close> can be): the decimal value when every character is a decimal
  digit, \<open>ValueError\<close> otherwise. The interpreter's message names the literal;
  the model keeps its fixed part.
\<close>

definition decimal_value :: "string \<Rightarrow> int" where
  "decimal_value s = foldl (\<lambda>acc c. 10 * acc + (int (of_char c) - 48)) 0 s"

definition py_int :: "string \<Rightarrow> exn + int" where
  "py_int s =
     (if s \<noteq> [] \<and> list_all is_decimal_char s then Inr (decimal_value s)
      else Inl (ValueError ''invalid literal for int() with base 10''))"

fun build_custom_attributes_loop :: "pyval list \<Rightarrow> string list \<Rightarrow> exn + pyval list" where
  "build_custom_attributes_loop custom_attributes_list [] = Inr custom_attributes_list"
| "build_custom_attributes_loop custom_attributes_list (attribute # rest) =
     (let splitted_att = py_split CHR '':'' attribute in
      if length splitted_att \<noteq> 2 then
        Inl (DemistoException
          ''Error: custom_attributes argument format is {columnIndex}:{newValue}. E.g: 1:test'')
      else
        let attribute_index = splitted_att ! 0 in
        if \<not> py_isdigit attribute_index then
          Inl (DemistoException ''Error: The attribute index must be an integer.'')
        else
          let attribute_value = splitted_att ! 1 in
          case py_int attribute_index of
            Inl e \<Rightarrow> Inl e
          | Inr n \<Rightarrow>
              build_custom_attributes_loop
                (custom_attributes_list @
                   [PDict [(''columnIndex'', PInt n), (''value'', PStr attribute_value)]])
                rest)"

definition build_custom_attributes_update :: "string list \<Rightarrow> exn + pyval list" where
  "build_custom_attributes_update custom_attributes =
     build_custom_attributes_loop [] custom_attributes"

section \<open>SymantecDLPV2: incident details\<close>

text \<open>
  \<open>info_get m k\<close> is \<open>m.get(k)\<close>, and \<open>info_get_default m k v\<close> is
  \<open>m.get(k, v)\<close>, for a value \<open>m\<close> already known to be a dict:
  where a function reads several keys of one value, the first read is
  \<^const>\<open>py_get\<close> and decides whether \<open>AttributeError\<close> is raised.
\<close>

definition info_get_default :: "pyval \<Rightarrow> string \<Rightarrow> pyval \<Rightarrow> pyval" where
  "info_get_default m k dflt = (case m of PDict d \<Rightarrow> dict_get d k dflt | _ \<Rightarrow> dflt)"

definition info_get :: "pyval \<Rightarrow> string \<Rightarrow> pyval" where
  "info_get m k = info_get_default m k PNone"

definition custom_attribute_of :: "pyval \<Rightarrow> exn + pyval" where
  "custom_attribute_of raw_custom_attribute =
     and_then (py_get raw_custom_attribute ''name'' PNone) (\<lambda>name.
       let index = info_get raw_custom_attribute ''index'';
           custom_attribute_value = info_get raw_custom_attribute ''value''
       in Inr (PDict ([(''name'', name), (''index'', index)]
                 @ (if truthy custom_attribute_value
                    then [(''value'', custom_attribute_value)] else []))))"

definition get_all_group_custom_attributes :: "pyval \<Rightarrow> exn + pyval" where
  "get_all_group_custom_attributes grp =
     and_then (py_get grp ''name'' PNone) (\<lambda>name.
     and_then (py_iter (info_get_default grp ''customAttributes'' (PList []))) (\<lambda>raws.
     and_then (for_each (\<lambda>raw. and_then (custom_attribute_of raw) (\<lambda>a. Inr [a])) raws)
       (\<lambda>attributes.
         Inr (PDict [(''name'', name), (''customAttribute'', PList attributes)]))))"

text \<open>
  The specific-attributes branch of \<open>parse_custom_attribute\<close>, for one raw
  attribute of a group \<open>grp\<close> (a dict: its \<open>customAttributes\<close> were read before).
\<close>

definition specific_attribute_of :: "pyval list \<Rightarrow> pyval \<Rightarrow> pyval \<Rightarrow> exn + pyval list" where
  "specific_attribute_of custom_attribute_name_list grp raw_custom_attribute =
     and_then (py_get raw_custom_attribute ''name'' PNone) (\<lambda>custom_attribute_name.
       if list_ex (py_eq custom_attribute_name) custom_attribute_name_list then
         let custom_attribute_value = info_get raw_custom_attribute ''value'';
             index = info_get raw_custom_attribute ''index''
         in Inr [PDict [(''name'', info_get grp ''name''),
                        (''customAttribute'',
                         PDict ([(''name'', custom_attribute_name)]
                                @ (if truthy custom_attribute_value
                                   then [(''value'', custom_attribute_value)] else [])
                                @ [(''index'', index)]))]]
       else Inr [])"

definition parse_custom_attribute :: "host \<Rightarrow> pyval \<Rightarrow> pydict \<Rightarrow> exn + pyval" where
  "parse_custom_attribute h custom_attribute_group_list args =
     (let custom_attributes_flag = dict_get args ''custom_attributes'' PNone in
      if py_eq custom_attributes_flag (PStr ''all'') then
        and_then (py_iter custom_attribute_group_list) (\<lambda>groups.
        and_then (for_each (\<lambda>group.
                    and_then (get_all_group_custom_attributes group) (\<lambda>g. Inr [g])) groups)
          (\<lambda>custom_attributes_list. Inr (PList custom_attributes_list)))
      else if py_eq custom_attributes_flag (PStr ''custom attribute group name'') then
        (let custom_data = dict_get args ''custom_data'' PNone in
         if \<not> truthy custom_data then
           Inl (DemistoException
             (''When choosing the group value for custom_attributes argument - the custom_data''
              @ '' list must be filled with group names. For example: custom_value=g1,g2,g3''))
         else
           let group_name_list = argToList h custom_data in
           and_then (py_iter custom_attribute_group_list) (\<lambda>groups.
           and_then (for_each (\<lambda>group.
                       and_then (py_get group ''name'' PNone) (\<lambda>name.
                         if list_ex (py_eq name) group_name_list then
                           and_then (get_all_group_custom_attributes group) (\<lambda>g. Inr [g])
                         else Inr [])) groups)
             (\<lambda>custom_attributes_list. Inr (PList custom_attributes_list))))
      else if py_eq custom_attributes_flag (PStr ''specific attributes'') then
        (let custom_data = dict_get args ''custom_data'' PNone in
         if \<not> truthy custom_data then
           Inl (DemistoException
             (''When choosing the custom value for custom_attributes argument - the custom_data''
              @ '' list must be filled with custom attribute names.''
              @ '' For example: custom_value=ca1,ca2,ca3''))
         else
           let custom_attribute_name_list = argToList h custom_data in
           and_then (py_iter custom_attribute_group_list) (\<lambda>groups.
           and_then (for_each (\<lambda>group.
                       and_then (py_get group ''customAttributes'' (PList [])) (\<lambda>raw_attributes.
                       and_then (py_iter raw_attributes) (\<lambda>raws.
                         for_each (specific_attribute_of custom_attribute_name_list group) raws)))
                       groups)
             (\<lambda>custom_attributes_list. Inr (PList custom_attributes_list))))
      else Inr (PList []))"

text \<open>
  \<open>get_details_for_specific_type\<close>. The three reads of \<open>recipientInfo[0]\<close> give
  the same value, so the first decides whether the expression raises.
\<close>

definition get_details_for_specific_type :: "host \<Rightarrow> pyval \<Rightarrow> pyval \<Rightarrow> exn + pydict" where
  "get_details_for_specific_type h incident_type incident_info_map_static =
     (let field = (\<lambda>k. (k, info_get incident_info_map_static k)) in
      if py_eq incident_type (PStr ''NETWORK'') then
        and_then (py_get incident_info_map_static ''messageSubject'' PNone) (\<lambda>message_subject.
        and_then (py_index0 (info_get incident_info_map_static ''recipientInfo'')) (\<lambda>recipient.
        and_then (py_get recipient ''recipientDomain'' PNone) (\<lambda>recipient_domain.
          Inr (assign_params h
                 [(''messageSubject'', message_subject),
                  field ''networkSenderPort'',
                  (''recipientInfo'',
                   PDict [(''recipientDomain'', recipient_domain),
                          (''recipientPort'', info_get recipient ''recipientPort''),
                          (''recipientUrl'', info_get recipient ''recipientUrl'')])]))))
      else if py_eq incident_type (PStr ''DISCOVER'') then
        and_then (py_get incident_info_map_static ''discoverName'' PNone) (\<lambda>discover_name.
          Inr (assign_params h
                 (map field
                    [''discoverName'', ''discoverRepositoryLocation'', ''fileModifiedBy'',
                     ''fileCreatedBy'', ''fileOwner'', ''fileOwnerEmail'', ''fileAccessDate'',
                     ''discoverServer'', ''discoverTargetName'', ''discoverScanStartDate''])))
      else if py_eq incident_type (PStr ''ENDPOINT'') then
        and_then (py_get incident_info_map_static ''domainUserName'' PNone) (\<lambda>domain_user_name.
          Inr (assign_params h
                 (map field
                    [''domainUserName'', ''endpointApplicationName'',
                     ''endpointDeviceInstanceId'', ''endpointMachineName'',
                     ''endpointFileName'', ''endpointFilePath'', ''fileCreatedBy'',
                     ''fileModifiedBy'', ''endpointApplicationPath'',
                     ''endpointConnectionStatus'', ''fileAccessDate''])))
      else Inr [])"

text \<open>
  \<open>get_common_incident_details\<close>. The entries of the dict literal are evaluated
  in order: \<open>static_attributes\<close> and the two info maps are read before
  \<open>arg_to_number\<close> runs, and \<open>parse_custom_attribute\<close> runs last.
\<close>

definition get_common_incident_details ::
  "host \<Rightarrow> pyval \<Rightarrow> pyval \<Rightarrow> pydict \<Rightarrow> pyval \<Rightarrow> bool \<Rightarrow> exn + pyval" where
  "get_common_incident_details h static_attributes editable_attributes args incident_type isfetch =
     and_then (py_get editable_attributes ''infoMap'' (PDict [])) (\<lambda>incident_info_map_editable.
     and_then (py_get static_attributes ''infoMap'' (PDict [])) (\<lambda>incident_info_map_static.
     let incident_custom_attribute_groups =
           info_get_default editable_attributes ''customAttributeGroups'' (PList []);
         static = info_get incident_info_map_static;
         editable = info_get incident_info_map_editable
     in
     and_then (py_get incident_info_map_static ''creationDate'' PNone) (\<lambda>creation_date.
     and_then (py_get incident_info_map_editable ''severityId'' PNone) (\<lambda>severity_id.
     and_then (arg_to_number h severity_id) (\<lambda>severity_number.
     and_then (parse_custom_attribute h incident_custom_attribute_groups args)
       (\<lambda>custom_attribute_group.
       let incident_details = assign_params h
             [(''ID'', info_get static_attributes ''incidentId''),
              (''creationDate'', creation_date),
              (''policyId'', static ''policyId''),
              (''severity'', get_severity_name_by_id severity_number),
              (''incidentStatusId'', editable ''incidentStatusId''),
              (''detectionDate'', static ''detectionDate''),
              (''senderIPAddress'', static ''senderIPAddress''),
              (''endpointMachineIpAddress'', static ''endpointMachineIpAddress''),
              (''policyName'', static ''policyName''),
              (''dataOwnerEmail'', editable ''dataOwnerEmail''),
              (''dataOwnerName'', editable ''dataOwnerName''),
              (''policyVersion'', static ''policyVersion''),
              (''messageSource'', static ''messageSource''),
              (''messageType'', static ''messageType''),
              (''detectionServerName'', static ''detectionServerName''),
              (''policyGroupName'', static ''policyGroupName''),
              (''matchCount'', static ''matchCount''),
              (''preventOrProtectStatusId'', editable ''preventOrProtectStatusId''),
              (''customAttributeGroup'', custom_attribute_group)]
       in
       if isfetch then
         and_then (get_details_for_specific_type h incident_type incident_info_map_static)
           (\<lambda>incident_additional_details.
             Inr (PDict (assign_params h
                           (dict_update incident_details incident_additional_details))))
       else Inr (PDict (assign_params h incident_details))))))))"

definition get_details_unauthorized_incident :: "host \<Rightarrow> pyval \<Rightarrow> exn + pyval" where
  "get_details_unauthorized_incident h incident_data =
     and_then (py_get incident_data ''incidentId'' PNone) (\<lambda>incident_id.
     and_then (arg_to_number h (info_get incident_data ''severityId'')) (\<lambda>severity_number.
       let field = info_get incident_data;
           incident_details = assign_params h
             [(''ID'', incident_id),
              (''creationDate'', field ''creationDate''),
              (''policyId'', field ''policyId''),
              (''severity'', get_severity_name_by_id severity_number),
              (''incidentStatusId'', field ''incidentStatusId''),
              (''detectionDate'', field ''detectionDate''),
              (''policyVersion'', field ''policyVersion''),
              (''messageSource'', field ''messageSource''),
              (''messageType'', field ''messageType''),
              (''matchCount'', field ''matchCount''),
              (''errorMessage'', PStr ''Notice: Incident contains partial data only'')]
       in Inr (PDict (filter (\<lambda>(key, val). truthy val) incident_details))))"

text \<open>The body of the \<open>try\<close> statement of \<open>get_incident_details_fetch\<close>.\<close>

definition get_incident_details_fetch_try ::
  "host \<Rightarrow> world \<Rightarrow> pyval \<Rightarrow> (exn + pyval) \<times> world" where
  "get_incident_details_fetch_try h w incident =
     (case py_get incident ''incidentId'' PNone of
        Inl e \<Rightarrow> (Inl e, w)
      | Inr incident_id \<Rightarrow>
          let incident_type = info_get_default incident ''messageSource'' (PStr []) in
          (case get_incident_static_attributes_request h w incident_id of
             (Inl e, w1) \<Rightarrow> (Inl e, w1)
           | (Inr static_attributes, w1) \<Rightarrow>
               (case get_incident_editable_attributes_request h w1 incident_id of
                  (Inl e, w2) \<Rightarrow> (Inl e, w2)
                | (Inr editable_attributes, w2) \<Rightarrow>
                    (get_common_incident_details h static_attributes editable_attributes
                       [(''custom_attributes'', PStr ''all'')] incident_type True, w2))))"

text \<open>
  \<open>str(e)\<close> of a \<open>DemistoException\<close> is its message; \<open>'401' in str(e)\<close> is
  \<^const>\<open>sublist\<close>. Only a \<open>DemistoException\<close> is caught.
\<close>

definition get_incident_details_fetch ::
  "host \<Rightarrow> world \<Rightarrow> pyval \<Rightarrow> (exn + pyval) \<times> world" where
  "get_incident_details_fetch h w incident =
     (case get_incident_details_fetch_try h w incident of
        (Inl (DemistoException msg), w') \<Rightarrow>
          if sublist ''401'' msg then (get_details_unauthorized_incident h incident, w')
          else (Inl (DemistoException msg), w')
      | (r, w') \<Rightarrow> (r, w'))"

section \<open>SymantecDLPV2: incident history\<close>

definition get_readable_output_incident_history :: "host \<Rightarrow> pyval list \<Rightarrow> exn + pyval list" where
  "get_readable_output_incident_history h incident_history_list =
     for_each (\<lambda>incident_history.
       and_then (py_get incident_history ''incidentHistoryDate'' PNone) (\<lambda>history_date.
         Inr [PDict (assign_params h
                [(''History Date'', history_date),
                 (''Incident History Action'', info_get incident_history ''incidentHistoryAction''),
                 (''DLP User Name'', info_get incident_history ''dlpUserName'')])]))
       incident_history_list"

text \<open>The three \<open>pop\<close> calls on one history entry; the result is the entry without the keys.\<close>

definition pop_history_keys :: "pyval \<Rightarrow> exn + pyval" where
  "pop_history_keys incident_history =
     and_then (py_pop incident_history ''incidentId'') (\<lambda>h1.
     and_then (py_pop h1 ''incidentHistoryActionI18nKey'') (\<lambda>h2.
       py_pop h2 ''internationalized''))"

definition get_context_incident_history :: "host \<Rightarrow> pyval list \<Rightarrow> exn + pyval list" where
  "get_context_incident_history h incident_history_list =
     (case incident_history_list of
        [] \<Rightarrow> Inl IndexError
      | first_history # rest \<Rightarrow>
          and_then (py_get first_history ''incidentId'' PNone) (\<lambda>first_id.
          and_then (arg_to_number h first_id) (\<lambda>incident_id.
          and_then (for_each (\<lambda>incident_history.
                      and_then (pop_history_keys incident_history) (\<lambda>popped. Inr [popped]))
                      incident_history_list) (\<lambda>popped_list.
            Inr [PDict [(''ID'', incident_id), (''incidentHistory'', PList popped_list)]]))))"

text \<open>
  \<open>v[:limit]\<close>, as the list of the elements of the slice: \<open>limit\<close> is \<open>None\<close>
  (no bound), an int or a bool; a list and a str can be sliced, the elements of
  a str are its characters.
\<close>

definition py_slice_to :: "pyval \<Rightarrow> pyval \<Rightarrow> exn + pyval list" where
  "py_slice_to v limit =
     (let cut = (\<lambda>xs. case limit of
                        PNone \<Rightarrow> Inr xs
                      | PInt n \<Rightarrow> Inr (py_slice xs 0 n)
                      | PBool b \<Rightarrow> Inr (py_slice xs 0 (if b then 1 else 0))
                      | _ \<Rightarrow> Inl TypeError)
      in case v of
           PList xs \<Rightarrow> cut xs
         | PStr s \<Rightarrow> cut (map (\<lambda>c. PStr [c]) s)
         | _ \<Rightarrow> Inl TypeError)"

record command_results =
  readable_output :: "string option"
  outputs_prefix :: string
  outputs_key_field :: string
  outputs :: pyval

definition get_incident_history_command ::
  "host \<Rightarrow> world \<Rightarrow> pydict \<Rightarrow> (exn + command_results) \<times> world" where
  "get_incident_history_command h w args =
     (case arg_to_number h (dict_get args ''incident_id'' PNone) of
        Inl e \<Rightarrow> (Inl e, w)
      | Inr incident_id \<Rightarrow>
     (case arg_to_number h (dict_get args ''limit'' (PInt 50)) of
        Inl e \<Rightarrow> (Inl e, w)
      | Inr limit \<Rightarrow>
     (case get_incident_history_request h w incident_id of
        (Inl e, w1) \<Rightarrow> (Inl e, w1)
      | (Inr incident_history_result, w1) \<Rightarrow>
          (and_then (py_slice_to incident_history_result limit) (\<lambda>sliced.
           and_then (get_readable_output_incident_history h sliced) (\<lambda>incidents_history_hr.
           and_then (get_context_incident_history h sliced) (\<lambda>incidents_history_context.
           and_then (tableToMarkdown h
                       (''Symantec DLP Incident '' @ py_format h incident_id
                          @ '' history results'')
                       incidents_history_hr) (\<lambda>table.
             Inr \<lparr>readable_output = Some table,
                  outputs_prefix = ''SymantecDLP.IncidentHistory'',
                  outputs_key_field = ''incidentId'',
                  outputs = remove_empty_elements h (PList incidents_history_context)\<rparr>)))),
           w1))))"

section \<open>SymantecDLPV2: fetching incidents\<close>

definition is_incident_already_fetched_in_previous_fetch :: "pyval \<Rightarrow> pyval \<Rightarrow> exn + pyval" where
  "is_incident_already_fetched_in_previous_fetch last_update_time incident_creation_date =
     (if \<not> truthy last_update_time then Inr last_update_time
      else (case py_ge last_update_time incident_creation_date of
              Inl e \<Rightarrow> Inl e
            | Inr b \<Rightarrow> Inr (PBool b)))"

text \<open>The comprehension \<open>[MAPPING[k] for k in ks]\<close>.\<close>

fun lookup_each :: "(string \<times> 'a) list \<Rightarrow> string list \<Rightarrow> exn + 'a list" where
  "lookup_each m [] = Inr []"
| "lookup_each m (k # ks) =
     (case map_of m k of
        None \<Rightarrow> Inl (KeyError (PStr k))
      | Some v \<Rightarrow> (case lookup_each m ks of Inl e \<Rightarrow> Inl e | Inr vs \<Rightarrow> Inr (v # vs)))"

text \<open>
  An optional list of strs as a value, and the two guarded comprehensions at the
  head of \<open>fetch_incidents\<close>: \<open>None\<close> and the empty list are left as they are.
\<close>

definition str_list_value :: "string list option \<Rightarrow> pyval" where
  "str_list_value xs = (case xs of None \<Rightarrow> PNone | Some ys \<Rightarrow> PList (map PStr ys))"

definition map_incident_severities :: "string list option \<Rightarrow> exn + pyval" where
  "map_incident_severities incident_severities =
     (case incident_severities of
        Some (s # ss) \<Rightarrow>
          (case lookup_each INCIDENT_SEVERITY_MAPPING (s # ss) of
             Inl e \<Rightarrow> Inl e
           | Inr ns \<Rightarrow> Inr (PList (map PInt ns)))
      | _ \<Rightarrow> Inr (str_list_value incident_severities))"

definition map_incident_types :: "string list option \<Rightarrow> exn + pyval" where
  "map_incident_types incident_types =
     (case incident_types of
        Some (t # ts) \<Rightarrow>
          (case lookup_each INCIDENT_TYPE_MAPPING (t # ts) of
             Inl e \<Rightarrow> Inl e
           | Inr ns \<Rightarrow> Inr (PList (map PStr ns)))
      | _ \<Rightarrow> Inr (str_list_value incident_types))"

text \<open>
  The value \<open>last_update_time\<close> starts from: the stored watermark when
  \<open>last_run\<close> is not empty, the parsed first-fetch time on the first run.
\<close>

definition first_last_update_time :: "host \<Rightarrow> pydict \<Rightarrow> string \<Rightarrow> exn + pyval" where
  "first_last_update_time h last_run fetch_time =
     (if last_run \<noteq> [] then Inr (dict_get last_run ''last_incident_creation_time'' PNone)
      else parse_creation_date h (PStr fetch_time))"

text \<open>
  One round of the loop of \<open>fetch_incidents\<close>, on the incidents collected so far
  and the current \<open>last_update_time\<close>. \<open>last_incident_data\<close> is
  \<open>incidents_data_list[-1]\<close>.
\<close>

definition fetch_incidents_round ::
  "host \<Rightarrow> pyval \<Rightarrow> pyval \<Rightarrow> pyval list \<times> pyval \<Rightarrow> world
     \<Rightarrow> (exn + pyval list \<times> pyval) \<times> world" where
  "fetch_incidents_round h last_incident_data incident_data state w =
     (case state of (incidents, last_update_time) \<Rightarrow>
      (case py_get incident_data ''incidentId'' PNone of
         Inl e \<Rightarrow> (Inl e, w)
       | Inr incident_id \<Rightarrow>
           let incident_creation_time = info_get incident_data ''creationDate'' in
           (case is_incident_already_fetched_in_previous_fetch last_update_time
                   incident_creation_time of
              Inl e \<Rightarrow> (Inl e, w)
            | Inr fetched \<Rightarrow>
                if truthy fetched then (Inr (incidents, last_update_time), w)
                else
                  (case get_incident_details_fetch h w incident_data of
                     (Inl e, w1) \<Rightarrow> (Inl e, w1)
                   | (Inr incident_details, w1) \<Rightarrow>
                       (case parse_creation_date h incident_creation_time of
                          Inl e \<Rightarrow> (Inl e, w1)
                        | Inr occurred \<Rightarrow>
                            let incident =
                                  PDict [(''rawJSON'', PStr (json_dumps h incident_details)),
                                         (''name'',
                                          PStr (''Symantec DLP Incident ID ''
                                                @ py_format h incident_id)),
                                         (''occurred'', occurred)]
                            in
                            (case py_get last_incident_data ''creationDate'' PNone of
                               Inl e \<Rightarrow> (Inl e, w1)
                             | Inr last_creation_date \<Rightarrow>
                                 (Inr (incidents @ [incident],
                                       if py_eq incident_creation_time last_creation_date
                                       then incident_creation_time
                                       else last_update_time),
                                  w1)))))))"

fun fetch_incidents_loop ::
  "host \<Rightarrow> pyval \<Rightarrow> pyval list \<Rightarrow> pyval list \<times> pyval \<Rightarrow> world
     \<Rightarrow> (exn + pyval list \<times> pyval) \<times> world" where
  "fetch_incidents_loop h last_incident_data [] state w = (Inr state, w)"
| "fetch_incidents_loop h last_incident_data (incident_data # rest) state w =
     (case fetch_incidents_round h last_incident_data incident_data state w of
        (Inl e, w1) \<Rightarrow> (Inl e, w1)
      | (Inr state1, w1) \<Rightarrow> fetch_incidents_loop h last_incident_data rest state1 w1)"

text \<open>The key of \<open>sorted(incidents, key=lambda d: d['name'])\<close>; every name is a str.\<close>

definition incident_name :: "pyval \<Rightarrow> string" where
  "incident_name d = (case info_get d ''name'' of PStr s \<Rightarrow> s | _ \<Rightarrow> [])"

definition fetch_incidents ::
  "host \<Rightarrow> world \<Rightarrow> string \<Rightarrow> int \<Rightarrow> pydict \<Rightarrow> string list option \<Rightarrow> string list option
     \<Rightarrow> string list option \<Rightarrow> bool \<Rightarrow> (exn + pyval) \<times> world" where
  "fetch_incidents h w fetch_time fetch_limit last_run incident_types incident_status_id
     incident_severities is_test =
     (case map_incident_severities incident_severities of
        Inl e \<Rightarrow> (Inl e, w)
      | Inr severities \<Rightarrow>
     (case map_incident_types incident_types of
        Inl e \<Rightarrow> (Inl e, w)
      | Inr types \<Rightarrow>
     (case first_last_update_time h last_run fetch_time of
        Inl e \<Rightarrow> (Inl e, w)
      | Inr last_update_time \<Rightarrow>
     (case get_incidents_request h w last_update_time (str_list_value incident_status_id)
             severities types (PInt fetch_limit) (PBool True) of
        (Inl e, w1) \<Rightarrow> (Inl e, w1)
      | (Inr incidents_data_res, w1) \<Rightarrow>
     (case and_then (py_get incidents_data_res ''incidents'' (PList [])) py_iter of
        Inl e \<Rightarrow> (Inl e, w1)
      | Inr incidents_data_list \<Rightarrow>
     (case fetch_incidents_loop h
             (if incidents_data_list = [] then PNone else last incidents_data_list)
             incidents_data_list ([], last_update_time) w1 of
        (Inl e, w2) \<Rightarrow> (Inl e, w2)
      | (Inr (incidents, last_update_time'), w2) \<Rightarrow>
          if is_test then (Inr PNone, w2)
          else
            (Inr (PList (sort_key incident_name incidents)),
             w2\<lparr>last_run_store :=
                  [(''last_incident_creation_time'', last_update_time')]\<rparr>)))))))"

definition test_module ::
  "host \<Rightarrow> world \<Rightarrow> pydict \<Rightarrow> string \<Rightarrow> int \<Rightarrow> string list option \<Rightarrow> string list option
     \<Rightarrow> string list option \<Rightarrow> (exn + string) \<times> world" where
  "test_module h w params fetch_time fetch_limit incident_type incident_status_id
     incident_severity =
     (case (if truthy (dict_get params ''isFetch'' PNone) then
              fetch_incidents h w fetch_time fetch_limit [] incident_type incident_status_id
                incident_severity True
            else
              get_incidents_request h w PNone PNone PNone PNone (PInt MAX_PAGE_SIZE) PNone) of
        (Inr r, w') \<Rightarrow> (Inr ''ok'', w')
      | (Inl (DemistoException msg), w') \<Rightarrow>
          if sublist ''Forbidden'' msg \<or> sublist ''Unauthorized'' msg then
            (Inr ''Authorization Error: make sure username and password are correctly set'', w')
          else (Inl (DemistoException msg), w')
      | (Inl e, w') \<Rightarrow> (Inl e, w'))"

section \<open>DecodersHex\<close>

text \<open>
  \<open>bytes.fromhex\<close>: two hexadecimal digits for each byte, in either case, with
  ASCII whitespace allowed between the bytes. The message of its \<open>ValueError\<close>
  names the position; the model keeps the fixed part.
\<close>

definition hex_digit_value :: "char \<Rightarrow> nat option" where
  "hex_digit_value c =
     (let n = of_char c :: nat in
      if 48 \<le> n \<and> n \<le> 57 then Some (n - 48)
      else if 97 \<le> n \<and> n \<le> 102 then Some (n - 87)
      else if 65 \<le> n \<and> n \<le> 70 then Some (n - 55)
      else None)"

definition is_ascii_space :: "char \<Rightarrow> bool" where
  "is_ascii_space c = (of_char c \<in> {32, 9, 10, 11, 12, 13 :: nat})"

fun bytes_fromhex :: "string \<Rightarrow> exn + 8 word list" where
  "bytes_fromhex [] = Inr []"
| "bytes_fromhex [c] =
     (if is_ascii_space c then Inr []
      else Inl (ValueError ''non-hexadecimal number found in fromhex() arg''))"
| "bytes_fromhex (c # d # rest) =
     (if is_ascii_space c then bytes_fromhex (d # rest)
      else (case (hex_digit_value c, hex_digit_value d) of
              (Some hi, Some lo) \<Rightarrow>
                (case bytes_fromhex rest of
                   Inl e \<Rightarrow> Inl e
                 | Inr bs \<Rightarrow> Inr (of_nat (16 * hi + lo) # bs))
            | _ \<Rightarrow> Inl (ValueError ''non-hexadecimal number found in fromhex() arg'')))"

text \<open>
  \<open>to\<close> is \<open>None\<close> when the caller leaves the argument out, and the default
  \<open>'utf-8'\<close> applies; a caller that passes a value, \<open>None\<close> included, overrides
  the default. \<open>decode\<close> takes a str only. \<open>str\<close> of a str is the str.
\<close>

definition decoders_hex :: "host \<Rightarrow> pyval \<Rightarrow> pyval option \<Rightarrow> exn + pyval" where
  "decoders_hex h encoded_text to =
     (let encoding = (case to of None \<Rightarrow> PStr ''utf-8'' | Some v \<Rightarrow> v) in
      case encoded_text of
        PStr s \<Rightarrow>
          and_then (bytes_fromhex s) (\<lambda>b.
            case encoding of
              PStr enc \<Rightarrow> and_then (codec_decode h enc b) (\<lambda>decode. Inr (PStr decode))
            | _ \<Rightarrow> Inl TypeError)
      | _ \<Rightarrow> Inl TypeError)"

definition decoders_hex_command :: "host \<Rightarrow> pydict \<Rightarrow> exn + command_results" where
  "decoders_hex_command h args =
     (let encoded_text = dict_get args ''encoded'' PNone;
          decode_to = dict_get args ''to'' PNone
      in
      if \<not> truthy encoded_text then Inl (ValueError ''Encoded text not specified'')
      else
        and_then (decoders_hex h encoded_text (Some decode_to)) (\<lambda>result.
          Inr \<lparr>readable_output = None,
               outputs_prefix = ''Decoders'',
               outputs_key_field = [],
               outputs = PDict [(''Decoded'', result),
                                (''Encoded'', encoded_text),
                                (''Encoder'', PStr ''HEX''),
                                (''Decoded-To'', decode_to)]\<rparr>))"

text \<open>\<open>bytes.hex\<close>: the hexadecimal encoding of a byte sequence, two lower-case digits a byte.\<close>

definition hex_char :: "nat \<Rightarrow> char" where
  "hex_char n = (if n < 10 then char_of (48 + n) else char_of (87 + n))"

definition bytes_hex :: "8 word list \<Rightarrow> string" where
  "bytes_hex bs = concat (map (\<lambda>b. [hex_char (unat b div 16), hex_char (unat b mod 16)]) bs)"

section \<open>A host for the examples\<close>

text \<open>
  The examples below run the scripts on a concrete host. Its library functions
  follow CommonServerPython on the values the examples use:
  \<open>assign_params\<close> drops the entries whose value is \<open>None\<close>, \<open>''\<close>, \<open>[]\<close> or
  \<open>{}\<close>; \<open>arg_to_number\<close> maps \<open>None\<close> and \<open>''\<close> to \<open>None\<close>, an int to
  itself and a str of digits to its value, and raises \<open>ValueError\<close> on the
  other strs of the examples; \<open>remove_empty_elements\<close> leaves a value without
  empty parts as it is. Dates are already in the format of \<open>DATE_FORMAT\<close>, ids
  have one digit, and the codec decodes ASCII.
\<close>

definition library_assign_params :: "pydict \<Rightarrow> pydict" where
  "library_assign_params kwargs =
     filter (\<lambda>(key, v). v \<noteq> PNone \<and> v \<noteq> PStr [] \<and> v \<noteq> PList [] \<and> v \<noteq> PDict []) kwargs"

definition library_arg_to_number :: "pyval \<Rightarrow> exn + pyval" where
  "library_arg_to_number arg =
     (case arg of
        PNone \<Rightarrow> Inr PNone
      | PInt n \<Rightarrow> Inr (PInt n)
      | PStr s \<Rightarrow>
          if s = [] then Inr PNone
          else if py_isdigit s then and_then (py_int s) (\<lambda>n. Inr (PInt n))
          else Inl (ValueError (''\"'' @ s @ ''\" is not a valid number''))
      | _ \<Rightarrow> Inl (ValueError ''not a valid number''))"

definition example_format :: "pyval \<Rightarrow> string" where
  "example_format v =
     (case v of
        PInt n \<Rightarrow> if 0 \<le> n \<and> n < 10 then [char_of (48 + nat n)] else ''?''
      | PStr s \<Rightarrow> s
      | _ \<Rightarrow> ''None'')"

definition example_host :: "(request list \<Rightarrow> request \<Rightarrow> exn + pyval) \<Rightarrow> host" where
  "example_host vendor =
     \<lparr>respond = vendor,
      dateparse = (\<lambda>v. case v of PStr s \<Rightarrow> Inr s | _ \<Rightarrow> Inl TypeError),
      json_dumps = (\<lambda>v. ''{}''),
      py_format = example_format,
      arg_to_number = library_arg_to_number,
      argToList = (\<lambda>v. case v of PList xs \<Rightarrow> xs | PNone \<Rightarrow> [] | _ \<Rightarrow> [v]),
      assign_params = library_assign_params,
      tableToMarkdown = (\<lambda>name rows. Inr name),
      remove_empty_elements = (\<lambda>v. v),
      codec_decode = (\<lambda>enc b. if list_all (\<lambda>x. x < 128) b then Inr (map (\<lambda>x. char_of (unat x)) b)
                              else Inl (OtherError ''UnicodeDecodeError''))\<rparr>"

text \<open>A vendor that answers every request with the same value, and the world before any request.\<close>

definition vendor_always :: "exn + pyval \<Rightarrow> request list \<Rightarrow> request \<Rightarrow> exn + pyval" where
  "vendor_always r sent req = r"

definition world0 :: world where
  "world0 = \<lparr>requests = [], last_run_store = []\<rparr>"

text \<open>
  An incident of the incidents list, and a host whose vendor answers every
  request with HTTP 401.
\<close>

definition example_incident :: pydict where
  "example_incident =
     [(''incidentId'', PInt 1), (''creationDate'', PStr ''2022-03-06T15:23:53''),
      (''severityId'', PInt 1)]"

definition unauthorized_host :: host where
  "unauthorized_host =
     example_host (vendor_always (Inl (DemistoException ''Error in API call [401] - Unauthorized'')))"

text \<open>A host whose vendor answers every request with HTTP 403.\<close>

definition forbidden_host :: host where
  "forbidden_host =
     example_host (vendor_always (Inl (DemistoException ''Error in API call [403] - Forbidden'')))"

text \<open>
  An incident of the result is built from a record of the vendor's list: its
  name carries the id of the record, and its \<open>occurred\<close> is the parsed creation
  date of the record.
\<close>

definition delivered_from :: "host \<Rightarrow> pyval \<Rightarrow> pyval \<Rightarrow> bool" where
  "delivered_from h incident_data incident =
     (info_get incident ''name''
        = PStr (''Symantec DLP Incident ID '' @ py_format h (info_get incident_data ''incidentId''))
      \<and> parse_creation_date h (info_get incident_data ''creationDate'')
          = Inr (info_get incident ''occurred''))"

text \<open>
  A second incident, created before \<^const>\<open>example_incident\<close>, and a host whose
  vendor answers the incidents request with both incidents and refuses every
  detail request with HTTP 401.
\<close>

definition earlier_incident :: pydict where
  "earlier_incident =
     [(''incidentId'', PInt 2), (''creationDate'', PStr ''2022-03-01T10:00:00''),
      (''severityId'', PInt 2)]"

definition fetch_vendor :: "request list \<Rightarrow> request \<Rightarrow> exn + pyval" where
  "fetch_vendor sent req =
     (if fst req = ''POST'' then
        Inr (PDict [(''incidents'', PList [PDict earlier_incident, PDict example_incident])])
      else Inl (DemistoException ''Error in API call [401] - Unauthorized''))"

definition fetch_host :: host where
  "fetch_host = example_host fetch_vendor"

text \<open>A host whose vendor answers every request with an empty list of incidents.\<close>

definition quiet_host :: host where
  "quiet_host = example_host (vendor_always (Inr (PDict [(''incidents'', PList [])])))"

text \<open>
  A history entry that carries the three keys \<open>get_context_incident_history\<close>
  pops.
\<close>

definition has_history_keys :: "pyval \<Rightarrow> bool" where
  "has_history_keys incident_history =
     (case incident_history of
        PDict d \<Rightarrow>
          map_of d ''incidentId'' \<noteq> None
          \<and> map_of d ''incidentHistoryActionI18nKey'' \<noteq> None
          \<and> map_of d ''internationalized'' \<noteq> None
      | _ \<Rightarrow> False)"

text \<open>
  Two history entries, the second without \<open>incidentHistoryActionI18nKey\<close> and
  \<open>internationalized\<close>, and a host whose vendor answers every request with the
  list of both.
\<close>

definition complete_history :: pydict where
  "complete_history =
     [(''incidentId'', PInt 1), (''incidentHistoryDate'', PStr ''2022-03-06T15:23:53''),
      (''incidentHistoryAction'', PStr ''SET_STATUS''),
      (''incidentHistoryActionI18nKey'', PStr ''incident.history.set_status''),
      (''internationalized'', PBool True), (''dlpUserName'', PStr ''Administrator'')]"

definition partial_history :: pydict where
  "partial_history =
     [(''incidentId'', PInt 1), (''incidentHistoryDate'', PStr ''2022-03-07T10:00:00''),
      (''incidentHistoryAction'', PStr ''SET_SEVERITY'')]"

definition history_host :: host where
  "history_host =
     example_host (vendor_always (Inr (PList [PDict complete_history, PDict partial_history])))"




text \<open>
  A vendor that answers the request for the static attributes with an empty
  dict and refuses every other request with the given exception; an incident
  whose \<open>severityId\<close> is not a number; and a host whose vendor answers every
  request with HTTP 500.
\<close>

definition editable_refusing_vendor :: "exn \<Rightarrow> request list \<Rightarrow> request \<Rightarrow> exn + pyval" where
  "editable_refusing_vendor e sent req =
     (if sublist ''staticAttributes'' (fst (snd req)) then Inr (PDict []) else Inl e)"

definition unrated_incident :: pydict where
  "unrated_incident =
     [(''incidentId'', PInt 1), (''creationDate'', PStr ''2022-03-06T15:23:53''),
      (''severityId'', PStr ''x'')]"

definition server_error_host :: host where
  "server_error_host =
     example_host
       (vendor_always (Inl (DemistoException ''Error in API call [500] - Internal Server Error'')))"

section \<open>Theorems\<close>

subsection \<open>Slices\<close>

lemma py_slice_nonneg:
  "0 \<le> a \<Longrightarrow> 0 \<le> b \<Longrightarrow> py_slice xs a b = take (nat b - nat a) (drop (nat a) xs)"
  by (auto simp: py_slice_def slice_bound_def Let_def min_def)

lemma py_slice_from_0:
  "0 \<le> b \<Longrightarrow> py_slice xs 0 b = take (nat b) xs"
  by (simp add: py_slice_nonneg)

subsection \<open>Pagination\<close>

text \<open>
  Claim C7, as amended. For every incidents list: with \<open>page\<close> and \<open>page_size\<close>
  both given, \<open>page \<ge> 1\<close> and \<open>page_size \<ge> 0\<close>, the function returns exactly the
  elements from index \<open>(page - 1) * page_size\<close> up to, and excluding, index
  \<open>page * page_size\<close>; with \<open>page \<le> 0\<close> it raises; with \<open>page\<close> or \<open>page_size\<close>
  missing it returns the first \<open>limit\<close> elements for a positive \<open>limit\<close>, and the
  first 50 (\<open>MAX_PAGE_SIZE\<close>) when \<open>limit\<close> is \<open>None\<close> or 0.
\<close>

theorem get_incidents_of_current_page_slices:
  "(0 < p \<longrightarrow> 0 \<le> ps \<longrightarrow>
      get_incidents_of_current_page limit (Some p) (Some ps) xs
        = Inr (take (nat (p * ps) - nat ((p - 1) * ps)) (drop (nat ((p - 1) * ps)) xs)))
   \<and> (p \<le> 0 \<longrightarrow>
      get_incidents_of_current_page limit (Some p) (Some ps) xs
        = Inl (PlainException ''Chosen page number must be greater than 0''))
   \<and> (page = None \<or> page_size = None \<longrightarrow>
      get_incidents_of_current_page None page page_size xs = Inr (take 50 xs)
      \<and> get_incidents_of_current_page (Some 0) page page_size xs = Inr (take 50 xs)
      \<and> (0 < l \<longrightarrow>
           get_incidents_of_current_page (Some l) page page_size xs = Inr (take (nat l) xs)))"
  by (auto simp: get_incidents_of_current_page_def py_slice_nonneg MAX_PAGE_SIZE_def Let_def
      split: option.splits)

text \<open>
  The theorem at a list of five incidents: page 2 of size 2, page 0, and a limit
  of 3 without a page size.
\<close>

theorem get_incidents_of_current_page_slices_witness:
  "get_incidents_of_current_page (Some 50) (Some 2) (Some 2) [1, 2, 3, 4, 5 :: nat] = Inr [3, 4]
   \<and> get_incidents_of_current_page (Some 50) (Some 0) (Some 2) [1, 2, 3, 4, 5 :: nat]
       = Inl (PlainException ''Chosen page number must be greater than 0'')
   \<and> get_incidents_of_current_page (Some 3) (Some 1) None [1, 2, 3, 4, 5 :: nat] = Inr [1, 2, 3]"
proof -
  have a: "get_incidents_of_current_page (Some 50) (Some 2) (Some 2) [1, 2, 3, 4, 5 :: nat]
             = Inr [3, 4]"
    using get_incidents_of_current_page_slices
            [of 2 2 "Some 50" "[1, 2, 3, 4, 5 :: nat]" "Some 1" None 3]
    by simp
  have b: "get_incidents_of_current_page (Some 50) (Some 0) (Some 2) [1, 2, 3, 4, 5 :: nat]
             = Inl (PlainException ''Chosen page number must be greater than 0'')"
    using get_incidents_of_current_page_slices
            [of 0 2 "Some 50" "[1, 2, 3, 4, 5 :: nat]" "Some 1" None 3]
    by simp
  have c: "get_incidents_of_current_page (Some 3) (Some 1) None [1, 2, 3, 4, 5 :: nat]
             = Inr [1, 2, 3]"
    using get_incidents_of_current_page_slices
            [of 2 2 "Some 50" "[1, 2, 3, 4, 5 :: nat]" "Some 1" None 3]
    by simp
  from a b c show ?thesis by simp
qed

text \<open>
  Claim C7 as stated fails for a negative \<open>page_size\<close> or \<open>limit\<close>, which the
  function does not reject: a negative slice bound counts from the end of the
  list. Page 1 of size \<open>-1\<close>, and a limit of \<open>-1\<close>, both return all but the last
  incident, where the claim's index range and the first \<open>-1\<close> elements are empty.
\<close>

theorem get_incidents_of_current_page_negative_counterexample:
  "get_incidents_of_current_page None (Some 1) (Some (- 1)) [10, 20, 30 :: int] = Inr [10, 20]
   \<and> get_incidents_of_current_page (Some (- 1)) None None [10, 20, 30 :: int] = Inr [10, 20]
   \<and> \<not> (\<forall>limit p ps (xs :: int list). 0 < p \<longrightarrow>
          get_incidents_of_current_page limit (Some p) (Some ps) xs
            = Inr (take (nat (p * ps) - nat ((p - 1) * ps)) (drop (nat ((p - 1) * ps)) xs)))
   \<and> \<not> (\<forall>l page page_size (xs :: int list). l \<noteq> 0 \<and> (page = None \<or> page_size = None) \<longrightarrow>
          get_incidents_of_current_page (Some l) page page_size xs = Inr (take (nat l) xs))"
proof -
  have a: "get_incidents_of_current_page None (Some 1) (Some (- 1)) [10, 20, 30 :: int]
             = Inr [10, 20]"
    by code_simp
  have b: "get_incidents_of_current_page (Some (- 1)) None None [10, 20, 30 :: int]
             = Inr [10, 20]"
    by code_simp
  have c: "\<not> (\<forall>limit p ps (xs :: int list). 0 < p \<longrightarrow>
          get_incidents_of_current_page limit (Some p) (Some ps) xs
            = Inr (take (nat (p * ps) - nat ((p - 1) * ps)) (drop (nat ((p - 1) * ps)) xs)))"
  proof
    assume "\<forall>limit p ps (xs :: int list). 0 < p \<longrightarrow>
          get_incidents_of_current_page limit (Some p) (Some ps) xs
            = Inr (take (nat (p * ps) - nat ((p - 1) * ps)) (drop (nat ((p - 1) * ps)) xs))"
    then have "get_incidents_of_current_page None (Some 1) (Some (- 1)) [10, 20, 30 :: int]
                 = Inr (take (nat (1 * (- 1)) - nat ((1 - 1) * (- 1)))
                          (drop (nat ((1 - 1) * (- 1))) [10, 20, 30]))"
      by (metis zero_less_one)
    with a show False by simp
  qed
  have d: "\<not> (\<forall>l page page_size (xs :: int list).
             l \<noteq> 0 \<and> (page = None \<or> page_size = None) \<longrightarrow>
             get_incidents_of_current_page (Some l) page page_size xs = Inr (take (nat l) xs))"
  proof
    assume "\<forall>l page page_size (xs :: int list).
             l \<noteq> 0 \<and> (page = None \<or> page_size = None) \<longrightarrow>
             get_incidents_of_current_page (Some l) page page_size xs = Inr (take (nat l) xs)"
    then have "get_incidents_of_current_page (Some (- 1)) None None [10, 20, 30 :: int]
                 = Inr (take (nat (- 1)) [10, 20, 30])"
      by simp
    with b show False by simp
  qed
  from a b c d show ?thesis by blast
qed

subsection \<open>Custom attributes of an update\<close>

text \<open>
  Claim C10 at the input \<open>['\<twosuperior>:x']\<close>, whose index is the superscript two
  (U+00B2). The string splits into two parts and its index passes \<open>isdigit\<close>,
  so no \<open>DemistoException\<close> is raised; \<open>int\<close> then rejects the index, and the
  function raises \<open>ValueError\<close> instead of returning a record.
\<close>

theorem build_custom_attributes_update_superscript_index:
  "py_split CHR '':'' [CHR 0xB2, CHR '':'', CHR ''x''] = [[CHR 0xB2], ''x'']
   \<and> py_isdigit [CHR 0xB2]
   \<and> build_custom_attributes_update [[CHR 0xB2, CHR '':'', CHR ''x'']]
       = Inl (ValueError ''invalid literal for int() with base 10'')"
  by code_simp

subsection \<open>Hex decoding\<close>

lemma hex_digit_value_hex_char: "n < 16 \<Longrightarrow> hex_digit_value (hex_char n) = Some n"
  by (auto simp: hex_digit_value_def hex_char_def Let_def)

lemma not_space_hex_char: "n < 16 \<Longrightarrow> \<not> is_ascii_space (hex_char n)"
  by (auto simp: is_ascii_space_def hex_char_def)

lemma bytes_fromhex_bytes_hex: "bytes_fromhex (bytes_hex bs) = Inr bs"
proof (induction bs)
  case Nil
  show ?case by (simp add: bytes_hex_def)
next
  case (Cons b bs)
  have hi: "unat b div 16 < 16"
    using unsigned_less [of b, where ?'a = nat] by (simp add: div_less_iff_less_mult)
  have lo: "unat b mod 16 < 16" by simp
  from Cons show ?case
    by (simp add: bytes_hex_def hex_digit_value_hex_char [OF hi] hex_digit_value_hex_char [OF lo]
        not_space_hex_char [OF hi] del: of_nat_add of_nat_mult)
qed

text \<open>
  Claim C5. For every byte sequence \<open>b\<close> that is valid UTF-8, that is, that the
  \<open>utf-8\<close> codec decodes to a text, \<open>decoders_hex\<close> with its default encoding
  maps the hexadecimal encoding of \<open>b\<close> to exactly that text.
\<close>

theorem decoders_hex_round_trip:
  "codec_decode h ''utf-8'' b = Inr text \<Longrightarrow>
     decoders_hex h (PStr (bytes_hex b)) None = Inr (PStr text)"
  by (simp add: decoders_hex_def bytes_fromhex_bytes_hex and_then_def)

text \<open>The theorem at the bytes of \<open>'hi'\<close>, whose hexadecimal encoding is \<open>'6869'\<close>.\<close>

theorem decoders_hex_round_trip_witness:
  "codec_decode (example_host (vendor_always (Inr PNone))) ''utf-8'' [0x68, 0x69] = Inr ''hi''
   \<and> bytes_hex [0x68, 0x69] = ''6869''
   \<and> decoders_hex (example_host (vendor_always (Inr PNone))) (PStr ''6869'') None
       = Inr (PStr ''hi'')"
proof -
  have d: "codec_decode (example_host (vendor_always (Inr PNone))) ''utf-8'' [0x68, 0x69]
             = Inr ''hi''"
    by code_simp
  have e: "bytes_hex [0x68, 0x69] = ''6869''"
    by code_simp
  from decoders_hex_round_trip [OF d] d e show ?thesis by simp
qed

text \<open>
  Claim C8. For every args dict without a \<open>to\<close> key, \<open>decoders_hex_command\<close>
  raises; when its \<open>encoded\<close> key holds a non-empty hex string, the command
  passes \<open>to=None\<close> into \<open>decoders_hex\<close>, which raises \<open>TypeError\<close> at
  \<open>decode(None)\<close>, and so does the command. The command always passes a value
  for \<open>to\<close>, so the default \<open>'utf-8'\<close> of \<open>decoders_hex\<close> is never used.
\<close>

theorem decoders_hex_command_without_to:
  "map_of args ''to'' = None \<Longrightarrow>
     (\<exists>e. decoders_hex_command h args = Inl e)
     \<and> (\<forall>s b. dict_get args ''encoded'' PNone = PStr s \<and> s \<noteq> [] \<and> bytes_fromhex s = Inr b \<longrightarrow>
           decoders_hex h (PStr s) (Some (dict_get args ''to'' PNone)) = Inl TypeError
           \<and> decoders_hex_command h args = Inl TypeError)"
  by (auto simp: decoders_hex_command_def decoders_hex_def and_then_def dict_get_def Let_def
      split: pyval.splits sum.splits)

text \<open>
  The theorem at the args \<open>{'encoded': '6869'}\<close>: the command raises
  \<open>TypeError\<close>, where \<open>decoders_hex\<close> with its default decodes the text.
\<close>

theorem decoders_hex_command_without_to_witness:
  "map_of [(''encoded'', PStr ''6869'')] ''to'' = None
   \<and> bytes_fromhex ''6869'' = Inr [0x68, 0x69]
   \<and> decoders_hex_command (example_host (vendor_always (Inr PNone)))
        [(''encoded'', PStr ''6869'')] = Inl TypeError
   \<and> decoders_hex (example_host (vendor_always (Inr PNone))) (PStr ''6869'') None
       = Inr (PStr ''hi'')"
proof -
  have a: "map_of [(''encoded'', PStr ''6869'')] ''to'' = None" by simp
  have b: "bytes_fromhex ''6869'' = Inr [0x68, 0x69]"
    by code_simp
  have c: "decoders_hex (example_host (vendor_always (Inr PNone))) (PStr ''6869'') None
             = Inr (PStr ''hi'')"
    by code_simp
  from decoders_hex_command_without_to [OF a, of "example_host (vendor_always (Inr PNone))"] a b c
  show ?thesis by (simp add: dict_get_def)
qed

subsection \<open>Incident details during fetch\<close>


lemma get_incident_details_fetch_try_static_raises:
  "get_incident_static_attributes_request h w (dict_get d ''incidentId'' PNone) = (Inl e, w1) \<Longrightarrow>
     get_incident_details_fetch_try h w (PDict d) = (Inl e, w1)"
  by (simp add: get_incident_details_fetch_try_def)

lemma get_incident_details_fetch_try_editable_raises:
  "get_incident_static_attributes_request h w (dict_get d ''incidentId'' PNone) = (Inr s, w1) \<Longrightarrow>
   get_incident_editable_attributes_request h w1 (dict_get d ''incidentId'' PNone) = (Inl e, w2) \<Longrightarrow>
     get_incident_details_fetch_try h w (PDict d) = (Inl e, w2)"
  by (simp add: get_incident_details_fetch_try_def Let_def)

lemma get_incident_details_fetch_handler:
  "get_incident_details_fetch_try h w incident = (Inl e, w') \<Longrightarrow>
     get_incident_details_fetch h w incident =
       (case e of
          DemistoException msg \<Rightarrow>
            if sublist ''401'' msg then (get_details_unauthorized_incident h incident, w')
            else (Inl e, w')
        | _ \<Rightarrow> (Inl e, w'))"
  by (simp add: get_incident_details_fetch_def split: exn.splits)

lemma unauthorized_incident_error_message:
  assumes keeps: "\<And>kwargs k s. (k, PStr s) \<in> set kwargs \<Longrightarrow> s \<noteq> [] \<Longrightarrow>
                    (k, PStr s) \<in> set (assign_params h kwargs)"
    and r: "get_details_unauthorized_incident h incident = Inr r"
  shows "\<exists>kvs. r = PDict kvs
           \<and> (''errorMessage'', PStr ''Notice: Incident contains partial data only'') \<in> set kvs"
proof -
  from r obtain kwargs where
    r_eq: "r = PDict (filter (\<lambda>(key, val). truthy val) (assign_params h kwargs))" and
    mem: "(''errorMessage'', PStr ''Notice: Incident contains partial data only'') \<in> set kwargs"
    by (auto simp: get_details_unauthorized_incident_def and_then_def Let_def split: sum.splits)
  from keeps [OF mem] have
    "(''errorMessage'', PStr ''Notice: Incident contains partial data only'')
       \<in> set (assign_params h kwargs)"
    by simp
  with r_eq show ?thesis by simp
qed

lemma get_details_unauthorized_incident_returns:
  "arg_to_number h (info_get (PDict d) ''severityId'') = Inr n \<Longrightarrow>
     \<exists>r. get_details_unauthorized_incident h (PDict d) = Inr r"
  by (simp add: get_details_unauthorized_incident_def and_then_def Let_def)

lemma get_details_unauthorized_incident_raises:
  "arg_to_number h (info_get (PDict d) ''severityId'') = Inl e \<Longrightarrow>
     get_details_unauthorized_incident h (PDict d) = Inl e"
  by (simp add: get_details_unauthorized_incident_def and_then_def)

lemma library_assign_params_keeps:
  "(k, PStr s) \<in> set kwargs \<and> s \<noteq> [] \<longrightarrow> (k, PStr s) \<in> set (library_assign_params kwargs)"
  by (auto simp: library_assign_params_def)

text \<open>
  Claim C3, as amended. For every incident record: if the request for its static
  attributes, or the request for its editable attributes, raises a
  \<open>DemistoException\<close> whose message contains \<open>401\<close>,
  \<open>get_incident_details_fetch\<close> ends as \<open>get_details_unauthorized_incident\<close>
  ends on the record; any other exception of the two requests is raised
  unchanged. \<open>get_details_unauthorized_incident\<close> returns a record when
  \<open>arg_to_number\<close> accepts the \<open>severityId\<close> of the incident, and that record
  carries the \<open>errorMessage\<close> \<open>Notice: Incident contains partial data only\<close>,
  given that \<open>assign_params\<close> keeps the entries whose value is a non-empty str;
  when \<open>arg_to_number\<close> raises on the \<open>severityId\<close>,
  \<open>get_details_unauthorized_incident\<close> raises that exception.
\<close>

theorem get_incident_details_fetch_maps_401:
  "(\<forall>msg w1. get_incident_static_attributes_request h w (dict_get d ''incidentId'' PNone)
               = (Inl (DemistoException msg), w1) \<and> sublist ''401'' msg \<longrightarrow>
        get_incident_details_fetch h w (PDict d)
          = (get_details_unauthorized_incident h (PDict d), w1))
   \<and> (\<forall>msg s w1 w2.
        get_incident_static_attributes_request h w (dict_get d ''incidentId'' PNone) = (Inr s, w1)
        \<and> get_incident_editable_attributes_request h w1 (dict_get d ''incidentId'' PNone)
            = (Inl (DemistoException msg), w2)
        \<and> sublist ''401'' msg \<longrightarrow>
        get_incident_details_fetch h w (PDict d)
          = (get_details_unauthorized_incident h (PDict d), w2))
   \<and> (\<forall>e w1. get_incident_static_attributes_request h w (dict_get d ''incidentId'' PNone)
               = (Inl e, w1) \<and> (\<forall>msg. e = DemistoException msg \<longrightarrow> \<not> sublist ''401'' msg) \<longrightarrow>
        get_incident_details_fetch h w (PDict d) = (Inl e, w1))
   \<and> (\<forall>e s w1 w2.
        get_incident_static_attributes_request h w (dict_get d ''incidentId'' PNone) = (Inr s, w1)
        \<and> get_incident_editable_attributes_request h w1 (dict_get d ''incidentId'' PNone)
            = (Inl e, w2)
        \<and> (\<forall>msg. e = DemistoException msg \<longrightarrow> \<not> sublist ''401'' msg) \<longrightarrow>
        get_incident_details_fetch h w (PDict d) = (Inl e, w2))
   \<and> (\<forall>n. arg_to_number h (info_get (PDict d) ''severityId'') = Inr n
            \<and> (\<forall>kwargs k s. (k, PStr s) \<in> set kwargs \<and> s \<noteq> [] \<longrightarrow>
                  (k, PStr s) \<in> set (assign_params h kwargs)) \<longrightarrow>
          (\<exists>kvs. get_details_unauthorized_incident h (PDict d) = Inr (PDict kvs)
             \<and> (''errorMessage'', PStr ''Notice: Incident contains partial data only'')
                 \<in> set kvs))
   \<and> (\<forall>e. arg_to_number h (info_get (PDict d) ''severityId'') = Inl e \<longrightarrow>
          get_details_unauthorized_incident h (PDict d) = Inl e)"
proof (intro conjI allI impI)
  fix msg w1
  assume "get_incident_static_attributes_request h w (dict_get d ''incidentId'' PNone)
            = (Inl (DemistoException msg), w1) \<and> sublist ''401'' msg"
  then show "get_incident_details_fetch h w (PDict d)
               = (get_details_unauthorized_incident h (PDict d), w1)"
    using get_incident_details_fetch_handler
            [OF get_incident_details_fetch_try_static_raises] by fastforce
next
  fix msg s w1 w2
  assume "get_incident_static_attributes_request h w (dict_get d ''incidentId'' PNone) = (Inr s, w1)
        \<and> get_incident_editable_attributes_request h w1 (dict_get d ''incidentId'' PNone)
            = (Inl (DemistoException msg), w2)
        \<and> sublist ''401'' msg"
  then show "get_incident_details_fetch h w (PDict d)
               = (get_details_unauthorized_incident h (PDict d), w2)"
    using get_incident_details_fetch_handler
            [OF get_incident_details_fetch_try_editable_raises] by fastforce
next
  fix e w1
  assume "get_incident_static_attributes_request h w (dict_get d ''incidentId'' PNone)
               = (Inl e, w1) \<and> (\<forall>msg. e = DemistoException msg \<longrightarrow> \<not> sublist ''401'' msg)"
  then show "get_incident_details_fetch h w (PDict d) = (Inl e, w1)"
    using get_incident_details_fetch_handler
            [OF get_incident_details_fetch_try_static_raises, of h w d e w1]
    by (auto split: exn.splits)
next
  fix e s w1 w2
  assume "get_incident_static_attributes_request h w (dict_get d ''incidentId'' PNone) = (Inr s, w1)
        \<and> get_incident_editable_attributes_request h w1 (dict_get d ''incidentId'' PNone)
            = (Inl e, w2)
        \<and> (\<forall>msg. e = DemistoException msg \<longrightarrow> \<not> sublist ''401'' msg)"
  then show "get_incident_details_fetch h w (PDict d) = (Inl e, w2)"
    using get_incident_details_fetch_handler
            [OF get_incident_details_fetch_try_editable_raises, of h w d s w1 e w2]
    by (auto split: exn.splits)
next
  fix n
  assume a: "arg_to_number h (info_get (PDict d) ''severityId'') = Inr n
            \<and> (\<forall>kwargs k s. (k, PStr s) \<in> set kwargs \<and> s \<noteq> [] \<longrightarrow>
                  (k, PStr s) \<in> set (assign_params h kwargs))"
  then obtain r where r: "get_details_unauthorized_incident h (PDict d) = Inr r"
    using get_details_unauthorized_incident_returns [of h d n] by blast
  from a unauthorized_incident_error_message [of h "PDict d" r, OF _ r]
  obtain kvs where "r = PDict kvs"
    "(''errorMessage'', PStr ''Notice: Incident contains partial data only'') \<in> set kvs"
    by blast
  with r show "\<exists>kvs. get_details_unauthorized_incident h (PDict d) = Inr (PDict kvs)
             \<and> (''errorMessage'', PStr ''Notice: Incident contains partial data only'')
                 \<in> set kvs"
    by blast
next
  fix e
  assume "arg_to_number h (info_get (PDict d) ''severityId'') = Inl e"
  then show "get_details_unauthorized_incident h (PDict d) = Inl e"
    by (rule get_details_unauthorized_incident_raises)
qed

text \<open>
  The theorem at the incident \<open>1\<close> and four vendors: one that refuses the static
  attributes with HTTP 401, one that refuses the editable attributes with HTTP
  401, and the same two with HTTP 403; and at an incident whose \<open>severityId\<close> is
  \<open>'x'\<close>.
\<close>

theorem get_incident_details_fetch_maps_401_witness:
  "get_incident_static_attributes_request unauthorized_host world0
       (dict_get example_incident ''incidentId'' PNone)
     = (Inl (DemistoException ''Error in API call [401] - Unauthorized''),
        \<lparr>requests = [(''GET'', ''/ProtectManager/webservices/v2/incidents/1/staticAttributes'',
                       None)],
         last_run_store = []\<rparr>)
   \<and> sublist ''401'' ''Error in API call [401] - Unauthorized''
   \<and> arg_to_number unauthorized_host (info_get (PDict example_incident) ''severityId'')
       = Inr (PInt 1)
   \<and> get_incident_details_fetch unauthorized_host world0 (PDict example_incident)
       = (Inr (PDict [(''ID'', PInt 1), (''creationDate'', PStr ''2022-03-06T15:23:53''),
                      (''severity'', PStr ''High''),
                      (''errorMessage'', PStr ''Notice: Incident contains partial data only'')]),
          \<lparr>requests = [(''GET'', ''/ProtectManager/webservices/v2/incidents/1/staticAttributes'',
                         None)],
           last_run_store = []\<rparr>)
   \<and> (''errorMessage'', PStr ''Notice: Incident contains partial data only'')
       \<in> set [(''ID'', PInt 1), (''creationDate'', PStr ''2022-03-06T15:23:53''),
               (''severity'', PStr ''High''),
               (''errorMessage'', PStr ''Notice: Incident contains partial data only'')]
   \<and> fst (get_incident_static_attributes_request
             (example_host (editable_refusing_vendor
                (DemistoException ''Error in API call [401] - Unauthorized'')))
             world0 (dict_get example_incident ''incidentId'' PNone))
       = Inr (PDict [])
   \<and> fst (get_incident_editable_attributes_request
             (example_host (editable_refusing_vendor
                (DemistoException ''Error in API call [401] - Unauthorized'')))
             (snd (get_incident_static_attributes_request
                     (example_host (editable_refusing_vendor
                        (DemistoException ''Error in API call [401] - Unauthorized'')))
                     world0 (dict_get example_incident ''incidentId'' PNone)))
             (dict_get example_incident ''incidentId'' PNone))
       = Inl (DemistoException ''Error in API call [401] - Unauthorized'')
   \<and> fst (get_incident_details_fetch
             (example_host (editable_refusing_vendor
                (DemistoException ''Error in API call [401] - Unauthorized'')))
             world0 (PDict example_incident))
       = Inr (PDict [(''ID'', PInt 1), (''creationDate'', PStr ''2022-03-06T15:23:53''),
                     (''severity'', PStr ''High''),
                     (''errorMessage'', PStr ''Notice: Incident contains partial data only'')])
   \<and> fst (get_incident_static_attributes_request forbidden_host world0
             (dict_get example_incident ''incidentId'' PNone))
       = Inl (DemistoException ''Error in API call [403] - Forbidden'')
   \<and> \<not> sublist ''401'' ''Error in API call [403] - Forbidden''
   \<and> fst (get_incident_details_fetch forbidden_host world0 (PDict example_incident))
       = Inl (DemistoException ''Error in API call [403] - Forbidden'')
   \<and> fst (get_incident_editable_attributes_request
             (example_host (editable_refusing_vendor
                (DemistoException ''Error in API call [403] - Forbidden'')))
             (snd (get_incident_static_attributes_request
                     (example_host (editable_refusing_vendor
                        (DemistoException ''Error in API call [403] - Forbidden'')))
                     world0 (dict_get example_incident ''incidentId'' PNone)))
             (dict_get example_incident ''incidentId'' PNone))
       = Inl (DemistoException ''Error in API call [403] - Forbidden'')
   \<and> fst (get_incident_details_fetch
             (example_host (editable_refusing_vendor
                (DemistoException ''Error in API call [403] - Forbidden'')))
             world0 (PDict example_incident))
       = Inl (DemistoException ''Error in API call [403] - Forbidden'')
   \<and> (\<exists>msg. arg_to_number unauthorized_host (info_get (PDict unrated_incident) ''severityId'')
               = Inl (ValueError msg)
             \<and> get_details_unauthorized_incident unauthorized_host (PDict unrated_incident)
                 = Inl (ValueError msg))"
proof -
  let ?m1 = "''Error in API call [401] - Unauthorized''"
  let ?m3 = "''Error in API call [403] - Forbidden''"
  let ?id = "dict_get example_incident ''incidentId'' PNone"
  let ?w1 = "\<lparr>requests = [(''GET'',
                            ''/ProtectManager/webservices/v2/incidents/1/staticAttributes'',
                            None)],
              last_run_store = []\<rparr>"
  let ?kvs = "[(''ID'', PInt 1), (''creationDate'', PStr ''2022-03-06T15:23:53''),
               (''severity'', PStr ''High''),
               (''errorMessage'', PStr ''Notice: Incident contains partial data only'')]"
  let ?e1 = "example_host (editable_refusing_vendor (DemistoException ?m1))"
  let ?e3 = "example_host (editable_refusing_vendor (DemistoException ?m3))"
  have keeps: "\<forall>kwargs k s. (k, PStr s) \<in> set kwargs \<and> s \<noteq> [] \<longrightarrow>
                  (k, PStr s) \<in> set (assign_params unauthorized_host kwargs)"
    using library_assign_params_keeps by (simp add: unauthorized_host_def example_host_def)
  have a: "get_incident_static_attributes_request unauthorized_host world0 ?id
             = (Inl (DemistoException ?m1), ?w1)"
    by code_simp
  have b: "sublist ''401'' ?m1" by code_simp
  have n: "arg_to_number unauthorized_host (info_get (PDict example_incident) ''severityId'')
             = Inr (PInt 1)"
    by code_simp
  have c: "get_details_unauthorized_incident unauthorized_host (PDict example_incident)
             = Inr (PDict ?kvs)"
    by code_simp
  have c': "get_details_unauthorized_incident ?e1 (PDict example_incident) = Inr (PDict ?kvs)"
    by code_simp
  note main1 = get_incident_details_fetch_maps_401
      [where h = unauthorized_host and w = world0 and d = example_incident]
  from main1 a b
  have r1: "get_incident_details_fetch unauthorized_host world0 (PDict example_incident)
              = (get_details_unauthorized_incident unauthorized_host (PDict example_incident),
                 ?w1)"
    by blast
  from main1 n keeps
  obtain kvs where
    k: "get_details_unauthorized_incident unauthorized_host (PDict example_incident)
          = Inr (PDict kvs)"
       "(''errorMessage'', PStr ''Notice: Incident contains partial data only'') \<in> set kvs"
    by blast
  from k c have r1': "(''errorMessage'', PStr ''Notice: Incident contains partial data only'')
                        \<in> set ?kvs"
    by simp
  have s2: "fst (get_incident_static_attributes_request ?e1 world0 ?id) = Inr (PDict [])"
    by code_simp
  have e2: "fst (get_incident_editable_attributes_request ?e1
                   (snd (get_incident_static_attributes_request ?e1 world0 ?id)) ?id)
              = Inl (DemistoException ?m1)"
    by code_simp
  from s2 have s2': "get_incident_static_attributes_request ?e1 world0 ?id
      = (Inr (PDict []), snd (get_incident_static_attributes_request ?e1 world0 ?id))"
    by (simp add: prod_eq_iff)
  from e2 have e2': "get_incident_editable_attributes_request ?e1
                   (snd (get_incident_static_attributes_request ?e1 world0 ?id)) ?id
      = (Inl (DemistoException ?m1),
         snd (get_incident_editable_attributes_request ?e1
                (snd (get_incident_static_attributes_request ?e1 world0 ?id)) ?id))"
    by (simp add: prod_eq_iff)
  from get_incident_details_fetch_maps_401
         [where h = ?e1 and w = world0 and d = example_incident] s2' e2' b
  have "get_incident_details_fetch ?e1 world0 (PDict example_incident)
          = (get_details_unauthorized_incident ?e1 (PDict example_incident),
             snd (get_incident_editable_attributes_request ?e1
                    (snd (get_incident_static_attributes_request ?e1 world0 ?id)) ?id))"
    by blast
  with c' have r2: "fst (get_incident_details_fetch ?e1 world0 (PDict example_incident))
                      = Inr (PDict ?kvs)"
    by simp
  have s3: "fst (get_incident_static_attributes_request forbidden_host world0 ?id)
              = Inl (DemistoException ?m3)"
    by code_simp
  have b3: "\<not> sublist ''401'' ?m3" by code_simp
  from s3 have s3': "get_incident_static_attributes_request forbidden_host world0 ?id
      = (Inl (DemistoException ?m3),
         snd (get_incident_static_attributes_request forbidden_host world0 ?id))"
    by (simp add: prod_eq_iff)
  from b3 have b3': "\<forall>msg. DemistoException ?m3 = DemistoException msg \<longrightarrow> \<not> sublist ''401'' msg"
    by (simp only: exn.inject) blast
  from get_incident_details_fetch_maps_401
         [where h = forbidden_host and w = world0 and d = example_incident] s3' b3'
  have "get_incident_details_fetch forbidden_host world0 (PDict example_incident)
          = (Inl (DemistoException ?m3),
             snd (get_incident_static_attributes_request forbidden_host world0 ?id))"
    by blast
  then have r3: "fst (get_incident_details_fetch forbidden_host world0 (PDict example_incident))
                   = Inl (DemistoException ?m3)"
    by simp
  have s4: "fst (get_incident_static_attributes_request ?e3 world0 ?id) = Inr (PDict [])"
    by code_simp
  have e4: "fst (get_incident_editable_attributes_request ?e3
                   (snd (get_incident_static_attributes_request ?e3 world0 ?id)) ?id)
              = Inl (DemistoException ?m3)"
    by code_simp
  from s4 have s4': "get_incident_static_attributes_request ?e3 world0 ?id
      = (Inr (PDict []), snd (get_incident_static_attributes_request ?e3 world0 ?id))"
    by (simp add: prod_eq_iff)
  from e4 have e4': "get_incident_editable_attributes_request ?e3
                   (snd (get_incident_static_attributes_request ?e3 world0 ?id)) ?id
      = (Inl (DemistoException ?m3),
         snd (get_incident_editable_attributes_request ?e3
                (snd (get_incident_static_attributes_request ?e3 world0 ?id)) ?id))"
    by (simp add: prod_eq_iff)
  from get_incident_details_fetch_maps_401
         [where h = ?e3 and w = world0 and d = example_incident] s4' e4' b3'
  have "get_incident_details_fetch ?e3 world0 (PDict example_incident)
          = (Inl (DemistoException ?m3),
             snd (get_incident_editable_attributes_request ?e3
                    (snd (get_incident_static_attributes_request ?e3 world0 ?id)) ?id))"
    by blast
  then have r4: "fst (get_incident_details_fetch ?e3 world0 (PDict example_incident))
                   = Inl (DemistoException ?m3)"
    by simp
  define msg where "msg = CHR 0x22 # ''x'' @ CHR 0x22 # '' is not a valid number''"
  have "arg_to_number unauthorized_host (info_get (PDict unrated_incident) ''severityId'')
          = Inl (ValueError (CHR 0x22 # ''x'' @ CHR 0x22 # '' is not a valid number''))"
    by code_simp
  then have
    v: "arg_to_number unauthorized_host (info_get (PDict unrated_incident) ''severityId'')
          = Inl (ValueError msg)"
    by (simp only: msg_def)
  from get_incident_details_fetch_maps_401
         [where h = unauthorized_host and w = world0 and d = unrated_incident] v
  have "get_details_unauthorized_incident unauthorized_host (PDict unrated_incident)
          = Inl (ValueError msg)"
    by blast
  with v have r5: "\<exists>msg.
      arg_to_number unauthorized_host (info_get (PDict unrated_incident) ''severityId'')
        = Inl (ValueError msg)
      \<and> get_details_unauthorized_incident unauthorized_host (PDict unrated_incident)
          = Inl (ValueError msg)"
    by blast
  from r1 c have r1'': "get_incident_details_fetch unauthorized_host world0
                          (PDict example_incident) = (Inr (PDict ?kvs), ?w1)"
    by simp
  from a b n r1'' r1' s2 e2 r2 s3 b3 r3 e4 r4 r5 show ?thesis by (intro conjI)
qed

text \<open>
  Claim C3 as stated fails for an incident whose \<open>severityId\<close> \<open>arg_to_number\<close>
  rejects: the request for the static attributes raises a \<open>DemistoException\<close>
  with \<open>401\<close> in its message, and \<open>get_incident_details_fetch\<close> raises
  \<open>ValueError\<close> where the claim has it return the partial record.
\<close>

theorem get_incident_details_fetch_raises_counterexample:
  "fst (get_incident_static_attributes_request unauthorized_host world0
          (dict_get unrated_incident ''incidentId'' PNone))
     = Inl (DemistoException ''Error in API call [401] - Unauthorized'')
   \<and> sublist ''401'' ''Error in API call [401] - Unauthorized''
   \<and> info_get (PDict unrated_incident) ''severityId'' = PStr ''x''
   \<and> fst (get_incident_details_fetch unauthorized_host world0 (PDict unrated_incident))
       = Inl (ValueError (CHR 0x22 # ''x'' @ CHR 0x22 # '' is not a valid number''))"
proof -
  have a: "fst (get_incident_static_attributes_request unauthorized_host world0
                  (dict_get unrated_incident ''incidentId'' PNone))
             = Inl (DemistoException ''Error in API call [401] - Unauthorized'')"
    by code_simp
  have b: "sublist ''401'' ''Error in API call [401] - Unauthorized''" by code_simp
  have c: "info_get (PDict unrated_incident) ''severityId'' = PStr ''x''" by code_simp
  have d: "fst (get_incident_details_fetch unauthorized_host world0 (PDict unrated_incident))
             = Inl (ValueError (CHR 0x22 # ''x'' @ CHR 0x22 # '' is not a valid number''))"
    by code_simp
  from a b c d show ?thesis by (intro conjI)
qed

subsection \<open>Connectivity test\<close>


lemma fetch_incidents_request_raises:
  "map_incident_severities incident_severities = Inr severities \<Longrightarrow>
   map_incident_types incident_types = Inr types \<Longrightarrow>
   first_last_update_time h last_run fetch_time = Inr last_update_time \<Longrightarrow>
   get_incidents_request h w last_update_time (str_list_value incident_status_id)
     severities types (PInt fetch_limit) (PBool True) = (Inl e, w1) \<Longrightarrow>
   fetch_incidents h w fetch_time fetch_limit last_run incident_types incident_status_id
     incident_severities is_test = (Inl e, w1)"
  by (simp add: fetch_incidents_def)

text \<open>
  Claim C6, as amended. \<open>test_module\<close> runs one call inside its \<open>try\<close>: the
  incidents request, or \<open>fetch_incidents\<close> in test mode when \<open>isFetch\<close> is set.
  When that call raises a \<open>DemistoException\<close> whose message contains
  \<open>Forbidden\<close> or \<open>Unauthorized\<close>, \<open>test_module\<close> returns the check-credentials
  message; when the call returns, it returns \<open>ok\<close>; any other
  \<open>DemistoException\<close> of the call is raised unchanged. With \<open>isFetch\<close> set, an
  exception of the incidents request that \<open>fetch_incidents\<close> makes is an
  exception of the call, which the last part states. An exception of a request
  for the details of an incident need not be one: \<open>get_incident_details_fetch\<close>
  catches those with \<open>401\<close> in the message.
\<close>

theorem test_module_maps_authorization_failure:
  "(\<not> truthy (dict_get params ''isFetch'' PNone) \<longrightarrow>
      (\<forall>msg w'. get_incidents_request h w PNone PNone PNone PNone (PInt MAX_PAGE_SIZE) PNone
                  = (Inl (DemistoException msg), w')
                \<and> (sublist ''Forbidden'' msg \<or> sublist ''Unauthorized'' msg) \<longrightarrow>
         test_module h w params fetch_time fetch_limit incident_type incident_status_id
           incident_severity
           = (Inr ''Authorization Error: make sure username and password are correctly set'', w'))
      \<and> (\<forall>r w'. get_incidents_request h w PNone PNone PNone PNone (PInt MAX_PAGE_SIZE) PNone
                  = (Inr r, w') \<longrightarrow>
         test_module h w params fetch_time fetch_limit incident_type incident_status_id
           incident_severity = (Inr ''ok'', w'))
      \<and> (\<forall>msg w'. get_incidents_request h w PNone PNone PNone PNone (PInt MAX_PAGE_SIZE) PNone
                  = (Inl (DemistoException msg), w')
                \<and> \<not> sublist ''Forbidden'' msg \<and> \<not> sublist ''Unauthorized'' msg \<longrightarrow>
         test_module h w params fetch_time fetch_limit incident_type incident_status_id
           incident_severity = (Inl (DemistoException msg), w')))
   \<and> (truthy (dict_get params ''isFetch'' PNone) \<longrightarrow>
      (\<forall>msg w'. fetch_incidents h w fetch_time fetch_limit [] incident_type incident_status_id
                  incident_severity True = (Inl (DemistoException msg), w')
                \<and> (sublist ''Forbidden'' msg \<or> sublist ''Unauthorized'' msg) \<longrightarrow>
         test_module h w params fetch_time fetch_limit incident_type incident_status_id
           incident_severity
           = (Inr ''Authorization Error: make sure username and password are correctly set'', w'))
      \<and> (\<forall>r w'. fetch_incidents h w fetch_time fetch_limit [] incident_type incident_status_id
                  incident_severity True = (Inr r, w') \<longrightarrow>
         test_module h w params fetch_time fetch_limit incident_type incident_status_id
           incident_severity = (Inr ''ok'', w'))
      \<and> (\<forall>msg w'. fetch_incidents h w fetch_time fetch_limit [] incident_type incident_status_id
                  incident_severity True = (Inl (DemistoException msg), w')
                \<and> \<not> sublist ''Forbidden'' msg \<and> \<not> sublist ''Unauthorized'' msg \<longrightarrow>
         test_module h w params fetch_time fetch_limit incident_type incident_status_id
           incident_severity = (Inl (DemistoException msg), w'))
      \<and> (\<forall>msg w' severities types last_update_time.
            map_incident_severities incident_severity = Inr severities
            \<and> map_incident_types incident_type = Inr types
            \<and> first_last_update_time h [] fetch_time = Inr last_update_time
            \<and> get_incidents_request h w last_update_time (str_list_value incident_status_id)
                severities types (PInt fetch_limit) (PBool True)
                = (Inl (DemistoException msg), w')
            \<and> (sublist ''Forbidden'' msg \<or> sublist ''Unauthorized'' msg) \<longrightarrow>
         test_module h w params fetch_time fetch_limit incident_type incident_status_id
           incident_severity
           = (Inr ''Authorization Error: make sure username and password are correctly set'',
              w')))"
proof -
  have tail: "\<And>msg w' severities types last_update_time.
            truthy (dict_get params ''isFetch'' PNone) \<Longrightarrow>
            map_incident_severities incident_severity = Inr severities \<Longrightarrow>
            map_incident_types incident_type = Inr types \<Longrightarrow>
            first_last_update_time h [] fetch_time = Inr last_update_time \<Longrightarrow>
            get_incidents_request h w last_update_time (str_list_value incident_status_id)
                severities types (PInt fetch_limit) (PBool True)
                = (Inl (DemistoException msg), w') \<Longrightarrow>
            sublist ''Forbidden'' msg \<or> sublist ''Unauthorized'' msg \<Longrightarrow>
         test_module h w params fetch_time fetch_limit incident_type incident_status_id
           incident_severity
           = (Inr ''Authorization Error: make sure username and password are correctly set'',
              w')"
  proof -
    fix msg w' severities types last_update_time
    assume f: "truthy (dict_get params ''isFetch'' PNone)"
      and a: "map_incident_severities incident_severity = Inr severities"
      and b: "map_incident_types incident_type = Inr types"
      and c: "first_last_update_time h [] fetch_time = Inr last_update_time"
      and d: "get_incidents_request h w last_update_time (str_list_value incident_status_id)
                severities types (PInt fetch_limit) (PBool True)
                = (Inl (DemistoException msg), w')"
      and m: "sublist ''Forbidden'' msg \<or> sublist ''Unauthorized'' msg"
    from fetch_incidents_request_raises [OF a b c d, of True] f m
    show "test_module h w params fetch_time fetch_limit incident_type incident_status_id
           incident_severity
           = (Inr ''Authorization Error: make sure username and password are correctly set'',
              w')"
      by (simp add: test_module_def)
  qed
  show ?thesis
    apply (intro conjI impI allI)
          apply (simp_all add: test_module_def)
    using tail apply (auto simp: test_module_def)
    done
qed

text \<open>
  The theorem at three vendors, each without and with \<open>isFetch\<close>: one that
  refuses every request with HTTP 403 (HTTP 401 with \<open>isFetch\<close>), one that has
  no incidents, and one that answers every request with HTTP 500.
\<close>

theorem test_module_maps_authorization_failure_witness:
  "\<not> truthy (dict_get [] ''isFetch'' PNone)
   \<and> fst (get_incidents_request forbidden_host world0 PNone PNone PNone PNone
             (PInt MAX_PAGE_SIZE) PNone)
       = Inl (DemistoException ''Error in API call [403] - Forbidden'')
   \<and> sublist ''Forbidden'' ''Error in API call [403] - Forbidden''
   \<and> test_module forbidden_host world0 [] ''3 days'' 10 None None None
       = (Inr ''Authorization Error: make sure username and password are correctly set'',
          snd (get_incidents_request forbidden_host world0 PNone PNone PNone PNone
                 (PInt MAX_PAGE_SIZE) PNone))
   \<and> fst (get_incidents_request quiet_host world0 PNone PNone PNone PNone
             (PInt MAX_PAGE_SIZE) PNone)
       = Inr (PDict [(''incidents'', PList [])])
   \<and> fst (test_module quiet_host world0 [] ''3 days'' 10 None None None) = Inr ''ok''
   \<and> fst (get_incidents_request server_error_host world0 PNone PNone PNone PNone
             (PInt MAX_PAGE_SIZE) PNone)
       = Inl (DemistoException ''Error in API call [500] - Internal Server Error'')
   \<and> \<not> sublist ''Forbidden'' ''Error in API call [500] - Internal Server Error''
   \<and> \<not> sublist ''Unauthorized'' ''Error in API call [500] - Internal Server Error''
   \<and> fst (test_module server_error_host world0 [] ''3 days'' 10 None None None)
       = Inl (DemistoException ''Error in API call [500] - Internal Server Error'')
   \<and> truthy (dict_get [(''isFetch'', PBool True)] ''isFetch'' PNone)
   \<and> map_incident_severities None = Inr PNone
   \<and> map_incident_types None = Inr PNone
   \<and> first_last_update_time unauthorized_host [] ''2022-03-05T00:00:00''
       = Inr (PStr ''2022-03-05T00:00:00'')
   \<and> fst (get_incidents_request unauthorized_host world0 (PStr ''2022-03-05T00:00:00'')
             (str_list_value None) PNone PNone (PInt 10) (PBool True))
       = Inl (DemistoException ''Error in API call [401] - Unauthorized'')
   \<and> sublist ''Unauthorized'' ''Error in API call [401] - Unauthorized''
   \<and> fst (test_module unauthorized_host world0 [(''isFetch'', PBool True)]
             ''2022-03-05T00:00:00'' 10 None None None)
       = Inr ''Authorization Error: make sure username and password are correctly set''
   \<and> fst (fetch_incidents forbidden_host world0 ''2022-03-05T00:00:00'' 10 [] None None None
             True)
       = Inl (DemistoException ''Error in API call [403] - Forbidden'')
   \<and> fst (test_module forbidden_host world0 [(''isFetch'', PBool True)]
             ''2022-03-05T00:00:00'' 10 None None None)
       = Inr ''Authorization Error: make sure username and password are correctly set''
   \<and> fst (fetch_incidents quiet_host world0 ''2022-03-05T00:00:00'' 10 [] None None None True)
       = Inr PNone
   \<and> fst (test_module quiet_host world0 [(''isFetch'', PBool True)]
             ''2022-03-05T00:00:00'' 10 None None None)
       = Inr ''ok''
   \<and> fst (fetch_incidents server_error_host world0 ''2022-03-05T00:00:00'' 10 [] None None
             None True)
       = Inl (DemistoException ''Error in API call [500] - Internal Server Error'')
   \<and> fst (test_module server_error_host world0 [(''isFetch'', PBool True)]
             ''2022-03-05T00:00:00'' 10 None None None)
       = Inl (DemistoException ''Error in API call [500] - Internal Server Error'')"
proof -
  let ?m1 = "''Error in API call [401] - Unauthorized''"
  let ?m3 = "''Error in API call [403] - Forbidden''"
  let ?m5 = "''Error in API call [500] - Internal Server Error''"
  let ?auth = "''Authorization Error: make sure username and password are correctly set''"
  let ?t = "''2022-03-05T00:00:00''"
  let ?on = "[(''isFetch'', PBool True)]"
  let ?plain = "\<lambda>h. get_incidents_request h world0 PNone PNone PNone PNone
                       (PInt MAX_PAGE_SIZE) PNone"
  let ?fetch = "\<lambda>h. fetch_incidents h world0 ?t 10 [] None None None True"
  let ?first = "\<lambda>h. get_incidents_request h world0 (PStr ?t) (str_list_value None) PNone PNone
                       (PInt 10) (PBool True)"
  have p: "\<not> truthy (dict_get [] ''isFetch'' PNone)" by code_simp
  have q: "truthy (dict_get ?on ''isFetch'' PNone)" by code_simp
  have f1: "fst (?plain forbidden_host) = Inl (DemistoException ?m3)"
    by (simp add: get_incidents_request_def http_request_def forbidden_host_def
        example_host_def vendor_always_def)
  have f2: "fst (?plain quiet_host) = Inr (PDict [(''incidents'', PList [])])"
    by (simp add: get_incidents_request_def http_request_def quiet_host_def
        example_host_def vendor_always_def)
  have f3: "fst (?plain server_error_host) = Inl (DemistoException ?m5)"
    by (simp add: get_incidents_request_def http_request_def server_error_host_def
        example_host_def vendor_always_def)
  have m3: "sublist ''Forbidden'' ?m3" by code_simp
  have m1: "sublist ''Unauthorized'' ?m1" by code_simp
  have n5: "\<not> sublist ''Forbidden'' ?m5" by code_simp
  have n5': "\<not> sublist ''Unauthorized'' ?m5" by code_simp
  have s: "map_incident_severities None = Inr PNone" by code_simp
  have t: "map_incident_types None = Inr PNone" by code_simp
  have u: "first_last_update_time unauthorized_host [] ?t = Inr (PStr ?t)" by code_simp
  have g1: "fst (?first unauthorized_host) = Inl (DemistoException ?m1)"
    by (simp add: get_incidents_request_def http_request_def unauthorized_host_def
        example_host_def vendor_always_def)
  have g3: "fst (?fetch forbidden_host) = Inl (DemistoException ?m3)" by code_simp
  have g2: "fst (?fetch quiet_host) = Inr PNone" by code_simp
  have g5: "fst (?fetch server_error_host) = Inl (DemistoException ?m5)" by code_simp
  from f1 have f1': "?plain forbidden_host
                       = (Inl (DemistoException ?m3), snd (?plain forbidden_host))"
    by (simp add: prod_eq_iff)
  from f2 have f2': "?plain quiet_host
                       = (Inr (PDict [(''incidents'', PList [])]), snd (?plain quiet_host))"
    by (simp add: prod_eq_iff)
  from f3 have f3': "?plain server_error_host
                       = (Inl (DemistoException ?m5), snd (?plain server_error_host))"
    by (simp add: prod_eq_iff)
  from g1 have g1': "?first unauthorized_host
                       = (Inl (DemistoException ?m1), snd (?first unauthorized_host))"
    by (simp add: prod_eq_iff)
  from g3 have g3': "?fetch forbidden_host
                       = (Inl (DemistoException ?m3), snd (?fetch forbidden_host))"
    by (simp add: prod_eq_iff)
  from g2 have g2': "?fetch quiet_host = (Inr PNone, snd (?fetch quiet_host))"
    by (simp add: prod_eq_iff)
  from g5 have g5': "?fetch server_error_host
                       = (Inl (DemistoException ?m5), snd (?fetch server_error_host))"
    by (simp add: prod_eq_iff)
  from test_module_maps_authorization_failure
         [where params = "[]" and h = forbidden_host and w = world0
            and fetch_time = "''3 days''" and fetch_limit = 10 and incident_type = None
            and incident_status_id = None and incident_severity = None] p f1' m3
  have r1: "test_module forbidden_host world0 [] ''3 days'' 10 None None None
              = (Inr ?auth, snd (?plain forbidden_host))"
    by blast
  from test_module_maps_authorization_failure
         [where params = "[]" and h = quiet_host and w = world0
            and fetch_time = "''3 days''" and fetch_limit = 10 and incident_type = None
            and incident_status_id = None and incident_severity = None] p f2'
  have "test_module quiet_host world0 [] ''3 days'' 10 None None None
          = (Inr ''ok'', snd (?plain quiet_host))"
    by blast
  then have r2: "fst (test_module quiet_host world0 [] ''3 days'' 10 None None None) = Inr ''ok''"
    by simp
  from test_module_maps_authorization_failure
         [where params = "[]" and h = server_error_host and w = world0
            and fetch_time = "''3 days''" and fetch_limit = 10 and incident_type = None
            and incident_status_id = None and incident_severity = None] p f3' n5 n5'
  have "test_module server_error_host world0 [] ''3 days'' 10 None None None
          = (Inl (DemistoException ?m5), snd (?plain server_error_host))"
    by blast
  then have r3: "fst (test_module server_error_host world0 [] ''3 days'' 10 None None None)
                   = Inl (DemistoException ?m5)"
    by simp
  from test_module_maps_authorization_failure
         [where params = ?on and h = unauthorized_host and w = world0 and fetch_time = ?t
            and fetch_limit = 10 and incident_type = None and incident_status_id = None
            and incident_severity = None]
       q s t u g1' m1
  have "test_module unauthorized_host world0 ?on ?t 10 None None None
          = (Inr ?auth, snd (?first unauthorized_host))"
    by blast
  then have r4: "fst (test_module unauthorized_host world0 ?on ?t 10 None None None)
                   = Inr ?auth"
    by simp
  from test_module_maps_authorization_failure
         [where params = ?on and h = forbidden_host and w = world0 and fetch_time = ?t
            and fetch_limit = 10 and incident_type = None and incident_status_id = None
            and incident_severity = None]
       q g3' m3
  have "test_module forbidden_host world0 ?on ?t 10 None None None
          = (Inr ?auth, snd (?fetch forbidden_host))"
    by blast
  then have r5: "fst (test_module forbidden_host world0 ?on ?t 10 None None None) = Inr ?auth"
    by simp
  from test_module_maps_authorization_failure
         [where params = ?on and h = quiet_host and w = world0 and fetch_time = ?t
            and fetch_limit = 10 and incident_type = None and incident_status_id = None
            and incident_severity = None]
       q g2'
  have "test_module quiet_host world0 ?on ?t 10 None None None
          = (Inr ''ok'', snd (?fetch quiet_host))"
    by blast
  then have r6: "fst (test_module quiet_host world0 ?on ?t 10 None None None) = Inr ''ok''"
    by simp
  from test_module_maps_authorization_failure
         [where params = ?on and h = server_error_host and w = world0 and fetch_time = ?t
            and fetch_limit = 10 and incident_type = None and incident_status_id = None
            and incident_severity = None]
       q g5' n5 n5'
  have "test_module server_error_host world0 ?on ?t 10 None None None
          = (Inl (DemistoException ?m5), snd (?fetch server_error_host))"
    by blast
  then have r7: "fst (test_module server_error_host world0 ?on ?t 10 None None None)
                   = Inl (DemistoException ?m5)"
    by simp
  from p f1 m3 r1 f2 r2 f3 n5 n5' r3 q s t u g1 m1 r4 g3 r5 g2 r6 g5 r7
  show ?thesis by (intro conjI)
qed

text \<open>
  Claim C6 as stated fails with \<open>isFetch\<close> set when only the requests for the
  details of an incident are refused: the vendor lists two incidents and answers
  the request for the static attributes of the incident \<open>1\<close> with
  \<open>Error in API call [401] - Unauthorized\<close>; \<open>get_incident_details_fetch\<close>
  catches the exception, and \<open>test_module\<close> returns \<open>ok\<close>.
\<close>

theorem test_module_ok_after_unauthorized_counterexample:
  "truthy (dict_get [(''isFetch'', PBool True)] ''isFetch'' PNone)
   \<and> requests
         (snd (test_module fetch_host world0 [(''isFetch'', PBool True)]
                 ''2022-03-05T00:00:00'' 10 None None None))
       = [(''POST'', ''/ProtectManager/webservices/v2/incidents'',
           Some (PDict (incidents_request_data (PStr ''2022-03-05T00:00:00'') PNone PNone PNone
                          (PInt 10) (PBool True)))),
          (''GET'', ''/ProtectManager/webservices/v2/incidents/1/staticAttributes'', None)]
   \<and> respond fetch_host
         [(''POST'', ''/ProtectManager/webservices/v2/incidents'',
           Some (PDict (incidents_request_data (PStr ''2022-03-05T00:00:00'') PNone PNone PNone
                          (PInt 10) (PBool True))))]
         (''GET'', ''/ProtectManager/webservices/v2/incidents/1/staticAttributes'', None)
       = Inl (DemistoException ''Error in API call [401] - Unauthorized'')
   \<and> sublist ''Unauthorized'' ''Error in API call [401] - Unauthorized''
   \<and> fst (test_module fetch_host world0 [(''isFetch'', PBool True)]
             ''2022-03-05T00:00:00'' 10 None None None)
       = Inr ''ok''"
proof -
  have a: "truthy (dict_get [(''isFetch'', PBool True)] ''isFetch'' PNone)" by code_simp
  have b: "requests
         (snd (test_module fetch_host world0 [(''isFetch'', PBool True)]
                 ''2022-03-05T00:00:00'' 10 None None None))
       = [(''POST'', ''/ProtectManager/webservices/v2/incidents'',
           Some (PDict (incidents_request_data (PStr ''2022-03-05T00:00:00'') PNone PNone PNone
                          (PInt 10) (PBool True)))),
          (''GET'', ''/ProtectManager/webservices/v2/incidents/1/staticAttributes'', None)]"
    by code_simp
  have c: "respond fetch_host
         [(''POST'', ''/ProtectManager/webservices/v2/incidents'',
           Some (PDict (incidents_request_data (PStr ''2022-03-05T00:00:00'') PNone PNone PNone
                          (PInt 10) (PBool True))))]
         (''GET'', ''/ProtectManager/webservices/v2/incidents/1/staticAttributes'', None)
       = Inl (DemistoException ''Error in API call [401] - Unauthorized'')"
    by code_simp
  have d: "sublist ''Unauthorized'' ''Error in API call [401] - Unauthorized''" by code_simp
  have e: "fst (test_module fetch_host world0 [(''isFetch'', PBool True)]
             ''2022-03-05T00:00:00'' 10 None None None)
       = Inr ''ok''"
    by code_simp
  from a b c d e show ?thesis by (intro conjI)
qed

subsection \<open>Fetching incidents\<close>

lemma already_fetched_str:
  "u \<noteq> [] \<Longrightarrow> is_incident_already_fetched_in_previous_fetch (PStr u) ct = Inr f \<Longrightarrow>
     \<exists>c. ct = PStr c \<and> f = PBool (c \<le> u)"
  by (cases ct) (auto simp: is_incident_already_fetched_in_previous_fetch_def)

lemma fetch_incidents_round_str:
  assumes u: "u \<noteq> []"
    and r: "fetch_incidents_round h last_data d (incs, PStr u) w = (Inr (incs', lut'), w')"
  shows "(incs' = incs \<and> lut' = PStr u \<and> w' = w)
         \<or> (\<exists>i c. incs' = incs @ [i] \<and> delivered_from h d i
               \<and> info_get d ''creationDate'' = PStr c \<and> u < c
               \<and> (lut' = PStr u \<or> lut' = PStr c))"
proof -
  from r obtain dd where d: "d = PDict dd"
    by (cases d) (auto simp: fetch_incidents_round_def)
  from r d obtain f where
    f: "is_incident_already_fetched_in_previous_fetch (PStr u) (info_get d ''creationDate'') = Inr f"
    by (auto simp: fetch_incidents_round_def Let_def split: sum.splits)
  from already_fetched_str [OF u f] obtain c where
    c: "info_get d ''creationDate'' = PStr c" and fb: "f = PBool (c \<le> u)" by blast
  show ?thesis
  proof (cases "c \<le> u")
    case True
    with r d f fb show ?thesis
      by (auto simp: fetch_incidents_round_def Let_def)
  next
    case False
    then have lt: "u < c" by simp
    from r d f fb c False show ?thesis
      using lt
      by (auto simp: fetch_incidents_round_def Let_def delivered_from_def info_get_def
          info_get_default_def dict_get_def
          split: sum.splits prod.splits if_splits)
  qed
qed

lemma fetch_incidents_round_skips:
  "u \<noteq> [] \<Longrightarrow> info_get (PDict dd) ''creationDate'' = PStr c \<Longrightarrow> c \<le> u \<Longrightarrow>
     fetch_incidents_round h last_data (PDict dd) (incs, PStr u) w = (Inr (incs, PStr u), w)"
  by (simp add: fetch_incidents_round_def is_incident_already_fetched_in_previous_fetch_def)

lemma fetch_incidents_loop_str:
  "u \<noteq> [] \<Longrightarrow>
   fetch_incidents_loop h last_data xs (incs, PStr u) w = (Inr (incs', lut'), w') \<Longrightarrow>
     \<exists>ds new u'. incs' = incs @ new \<and> subseq ds xs \<and> list_all2 (delivered_from h) ds new
        \<and> list_all (\<lambda>d. \<exists>c. info_get d ''creationDate'' = PStr c \<and> u < c) ds
        \<and> lut' = PStr u' \<and> u \<le> u'"
proof (induction xs arbitrary: incs u w)
  case Nil
  then show ?case by auto
next
  case (Cons d xs)
  from Cons.prems(2) obtain incs1 lut1 w1 where
    r: "fetch_incidents_round h last_data d (incs, PStr u) w = (Inr (incs1, lut1), w1)" and
    l: "fetch_incidents_loop h last_data xs (incs1, lut1) w1 = (Inr (incs', lut'), w')"
    by (auto split: sum.splits prod.splits)
  from fetch_incidents_round_str [OF Cons.prems(1) r]
  consider (skip) "incs1 = incs" "lut1 = PStr u"
    | (deliver) i c u1 where "incs1 = incs @ [i]" "delivered_from h d i"
        "info_get d ''creationDate'' = PStr c" "u < c" "lut1 = PStr u1" "u \<le> u1" "u1 \<noteq> []"
  proof -
    assume skip: "incs1 = incs \<Longrightarrow> lut1 = PStr u \<Longrightarrow> thesis"
      and deliver: "\<And>i c u1. incs1 = incs @ [i] \<Longrightarrow> delivered_from h d i \<Longrightarrow>
        info_get d ''creationDate'' = PStr c \<Longrightarrow> u < c \<Longrightarrow> lut1 = PStr u1 \<Longrightarrow>
        u \<le> u1 \<Longrightarrow> u1 \<noteq> [] \<Longrightarrow> thesis"
      and cases: "(incs1 = incs \<and> lut1 = PStr u \<and> w1 = w)
         \<or> (\<exists>i c. incs1 = incs @ [i] \<and> delivered_from h d i
               \<and> info_get d ''creationDate'' = PStr c \<and> u < c
               \<and> (lut1 = PStr u \<or> lut1 = PStr c))"
    from cases show thesis
    proof (elim disjE conjE exE)
      assume "incs1 = incs" "lut1 = PStr u"
      then show thesis by (rule skip)
    next
      fix i c
      assume a: "incs1 = incs @ [i]" "delivered_from h d i"
        "info_get d ''creationDate'' = PStr c" "u < c" and b: "lut1 = PStr u"
      show thesis by (rule deliver [OF a b]) (use Cons.prems(1) in simp_all)
    next
      fix i c
      assume a: "incs1 = incs @ [i]" "delivered_from h d i"
        "info_get d ''creationDate'' = PStr c" "u < c" and b: "lut1 = PStr c"
      from a(4) have "u \<le> c" by simp
      moreover from a(4) have "c \<noteq> []" by auto
      ultimately show thesis by (rule deliver [OF a b])
    qed
  qed
  then show ?case
  proof cases
    case skip
    from Cons.IH [OF Cons.prems(1) l [unfolded skip]]
    obtain ds new u' where
      "incs' = incs @ new" "subseq ds xs" "list_all2 (delivered_from h) ds new"
      "list_all (\<lambda>d. \<exists>c. info_get d ''creationDate'' = PStr c \<and> u < c) ds"
      "lut' = PStr u'" "u \<le> u'" by blast
    then show ?thesis by (intro exI [of _ ds] exI [of _ new] exI [of _ u']) auto
  next
    case deliver
    from Cons.IH [OF deliver(7) l [unfolded deliver(1,5)]]
    obtain ds new u' where
      n: "incs' = (incs @ [i]) @ new" and s: "subseq ds xs"
      and a: "list_all2 (delivered_from h) ds new"
      and g: "list_all (\<lambda>d. \<exists>c. info_get d ''creationDate'' = PStr c \<and> u1 < c) ds"
      and e: "lut' = PStr u'" and le: "u1 \<le> u'" by blast
    from g deliver(6) have g': "list_all (\<lambda>d. \<exists>c. info_get d ''creationDate'' = PStr c \<and> u < c) ds"
      by (auto simp: list_all_iff)
    show ?thesis
      using n s a g' e le deliver
      by (intro exI [of _ "d # ds"] exI [of _ "i # new"] exI [of _ u']) auto
  qed
qed

lemma requests_http_request:
  "requests (snd (http_request h w m u b)) = requests w @ [(m, u, b)]"
  by (simp add: http_request_def)

lemma requests_details_fetch_try:
  "\<exists>more. requests (snd (get_incident_details_fetch_try h w incident)) = requests w @ more"
  by (auto simp: get_incident_details_fetch_try_def get_incident_static_attributes_request_def
      get_incident_editable_attributes_request_def http_request_def Let_def
      split: sum.splits prod.splits)

lemma requests_details_fetch:
  "\<exists>more. requests (snd (get_incident_details_fetch h w incident)) = requests w @ more"
  using requests_details_fetch_try [of h w incident]
  by (auto simp: get_incident_details_fetch_def split: sum.splits prod.splits exn.splits)

lemma requests_round:
  "\<exists>more. requests (snd (fetch_incidents_round h last_data d st w)) = requests w @ more"
proof -
  obtain r w1 where g: "get_incident_details_fetch h w d = (r, w1)"
    by (cases "get_incident_details_fetch h w d")
  from requests_details_fetch [of h w d] g obtain more where
    m: "requests w1 = requests w @ more" by auto
  have "requests (snd (fetch_incidents_round h last_data d st w)) = requests w
        \<or> requests (snd (fetch_incidents_round h last_data d st w)) = requests w1"
    using g
    by (auto simp: fetch_incidents_round_def Let_def split: sum.splits prod.splits)
  with m show ?thesis by auto
qed

lemma requests_loop:
  "\<exists>more. requests (snd (fetch_incidents_loop h last_data xs st w)) = requests w @ more"
proof (induction xs arbitrary: st w)
  case Nil
  show ?case by simp
next
  case (Cons d xs)
  obtain r w1 where g: "fetch_incidents_round h last_data d st w = (r, w1)"
    by (cases "fetch_incidents_round h last_data d st w")
  from requests_round [of h last_data d st w] g obtain m1 where
    m1: "requests w1 = requests w @ m1" by auto
  show ?case
  proof (cases r)
    case (Inl e)
    with g m1 show ?thesis by auto
  next
    case (Inr st1)
    from Cons.IH [of st1 w1] obtain m2 where
      "requests (snd (fetch_incidents_loop h last_data xs st1 w1)) = requests w1 @ m2" by blast
    with g Inr m1 show ?thesis by auto
  qed
qed

lemma fetch_incidents_first_request:
  assumes "map_incident_severities incident_severities = Inr severities"
    and "map_incident_types incident_types = Inr types"
    and "first_last_update_time h last_run fetch_time = Inr last_update_time"
  shows "\<exists>more. requests (snd (fetch_incidents h w fetch_time fetch_limit last_run incident_types
                    incident_status_id incident_severities is_test))
           = requests w
             @ (''POST'', incidents_url,
                Some (PDict (incidents_request_data last_update_time
                               (str_list_value incident_status_id) severities types
                               (PInt fetch_limit) (PBool True))))
             # more"
proof -
  let ?req = "(''POST'', incidents_url,
                Some (PDict (incidents_request_data last_update_time
                               (str_list_value incident_status_id) severities types
                               (PInt fetch_limit) (PBool True))))"
  obtain r w1 where g: "get_incidents_request h w last_update_time
      (str_list_value incident_status_id) severities types (PInt fetch_limit) (PBool True) = (r, w1)"
    by (cases "get_incidents_request h w last_update_time
      (str_list_value incident_status_id) severities types (PInt fetch_limit) (PBool True)")
  then have w1: "requests w1 = requests w @ [?req]"
    by (auto simp: get_incidents_request_def http_request_def)
  have loop: "\<And>l xs st. \<exists>more. requests (snd (fetch_incidents_loop h l xs st w1))
                  = requests w @ ?req # more"
  proof -
    fix l xs st
    from requests_loop [of h l xs st w1] w1 show "\<exists>more. requests (snd (fetch_incidents_loop h l xs st w1))
                  = requests w @ ?req # more" by auto
  qed
  show ?thesis
  proof (cases r)
    case (Inl e)
    with assms g w1 show ?thesis by (simp add: fetch_incidents_def)
  next
    case (Inr res)
    show ?thesis
    proof (cases "and_then (py_get res ''incidents'' (PList [])) py_iter")
      case (Inl e)
      with assms g w1 Inr show ?thesis by (simp add: fetch_incidents_def)
    next
      case xs: (Inr xs)
      obtain lr w2 where l: "fetch_incidents_loop h (if xs = [] then PNone else last xs) xs
                               ([], last_update_time) w1 = (lr, w2)"
        by (cases "fetch_incidents_loop h (if xs = [] then PNone else last xs) xs
                               ([], last_update_time) w1")
      from loop [of "if xs = [] then PNone else last xs" xs "([], last_update_time)"] l
      obtain more where "requests w2 = requests w @ ?req # more" by auto
      with assms g Inr xs l show ?thesis
        by (cases lr) (auto simp: fetch_incidents_def split: prod.splits)
    qed
  qed
qed

lemma fetch_incidents_completes:
  assumes "fetch_incidents h w fetch_time fetch_limit last_run incident_types incident_status_id
             incident_severities False = (Inr r, w')"
  shows "\<exists>severities types last_update_time res w1 xs incidents last_update_time' w2.
           map_incident_severities incident_severities = Inr severities
           \<and> map_incident_types incident_types = Inr types
           \<and> first_last_update_time h last_run fetch_time = Inr last_update_time
           \<and> get_incidents_request h w last_update_time (str_list_value incident_status_id)
               severities types (PInt fetch_limit) (PBool True) = (Inr res, w1)
           \<and> and_then (py_get res ''incidents'' (PList [])) py_iter = Inr xs
           \<and> fetch_incidents_loop h (if xs = [] then PNone else last xs) xs
               ([], last_update_time) w1 = (Inr (incidents, last_update_time'), w2)
           \<and> r = PList (sort_key incident_name incidents)
           \<and> w' = w2\<lparr>last_run_store := [(''last_incident_creation_time'', last_update_time')]\<rparr>"
proof -
  note run = assms
  obtain severities where a: "map_incident_severities incident_severities = Inr severities"
    using run by (cases "map_incident_severities incident_severities")
      (simp_all add: fetch_incidents_def)
  obtain types where b: "map_incident_types incident_types = Inr types"
    using run a by (cases "map_incident_types incident_types")
      (simp_all add: fetch_incidents_def)
  obtain last_update_time where
    c: "first_last_update_time h last_run fetch_time = Inr last_update_time"
    using run a b by (cases "first_last_update_time h last_run fetch_time")
      (simp_all add: fetch_incidents_def)
  obtain rr w1 where d0: "get_incidents_request h w last_update_time
      (str_list_value incident_status_id) severities types (PInt fetch_limit) (PBool True)
      = (rr, w1)"
    by (cases "get_incidents_request h w last_update_time
      (str_list_value incident_status_id) severities types (PInt fetch_limit) (PBool True)")
  obtain res where d1: "rr = Inr res"
    using run a b c d0 by (cases rr) (simp_all add: fetch_incidents_def)
  note d = d0 [unfolded d1]
  obtain xs where e: "and_then (py_get res ''incidents'' (PList [])) py_iter = Inr xs"
    using run a b c d by (cases "and_then (py_get res ''incidents'' (PList [])) py_iter")
      (simp_all add: fetch_incidents_def)
  obtain lr w2 where f0: "fetch_incidents_loop h (if xs = [] then PNone else last xs) xs
               ([], last_update_time) w1 = (lr, w2)"
    by (cases "fetch_incidents_loop h (if xs = [] then PNone else last xs) xs
               ([], last_update_time) w1")
  obtain incidents last_update_time' where f1: "lr = Inr (incidents, last_update_time')"
    using run a b c d e f0 by (cases lr) (auto simp: fetch_incidents_def)
  note f = f0 [unfolded f1]
  from run a b c d e f have
    "r = PList (sort_key incident_name incidents)
     \<and> w' = w2\<lparr>last_run_store := [(''last_incident_creation_time'', last_update_time')]\<rparr>"
    by (simp add: fetch_incidents_def)
  with a b c d e f show ?thesis by blast
qed







text \<open>
  Claim C2. The watermark excludes the records delivered before: when a run that
  is not a test completes from a non-empty watermark \<open>t\<close>, the returned list is
  the sorted list of incidents built, one for one, from a subsequence \<open>ds\<close> of the
  records the vendor returned; every record of \<open>ds\<close> has a creation date
  strictly greater than \<open>t\<close>, so a record whose creation date is less than or
  equal to \<open>t\<close> is not among them. The round of the loop on such a record, at
  any watermark from \<open>t\<close> on, leaves the collected incidents, the watermark and
  the world as they are: no request is sent for it.
\<close>

theorem fetch_incidents_delivers_after_watermark:
  assumes run: "fetch_incidents h w fetch_time fetch_limit last_run incident_types
                  incident_status_id incident_severities False = (Inr r, w')"
    and start: "first_last_update_time h last_run fetch_time = Inr (PStr t)"
    and nonempty: "t \<noteq> []"
    and sev: "map_incident_severities incident_severities = Inr severities"
    and typs: "map_incident_types incident_types = Inr types"
    and req: "get_incidents_request h w (PStr t) (str_list_value incident_status_id)
                severities types (PInt fetch_limit) (PBool True) = (Inr res, w1)"
    and lst: "and_then (py_get res ''incidents'' (PList [])) py_iter = Inr incidents_data_list"
  shows "(\<exists>ds incidents.
            r = PList (sort_key incident_name incidents)
            \<and> subseq ds incidents_data_list
            \<and> list_all2 (delivered_from h) ds incidents
            \<and> list_all (\<lambda>d. \<exists>c. info_get d ''creationDate'' = PStr c \<and> t < c) ds
            \<and> (\<forall>d c. d \<in> set incidents_data_list \<and> info_get d ''creationDate'' = PStr c
                      \<and> c \<le> t \<longrightarrow> d \<notin> set ds))
         \<and> (\<forall>dd c u incs last_data w0.
               t \<le> u \<and> info_get (PDict dd) ''creationDate'' = PStr c \<and> c \<le> t \<longrightarrow>
               fetch_incidents_round h last_data (PDict dd) (incs, PStr u) w0
                 = (Inr (incs, PStr u), w0))"
proof -
  from fetch_incidents_completes [OF run] start sev typs req lst obtain incidents x w2 where
    loop: "fetch_incidents_loop h
             (if incidents_data_list = [] then PNone else last incidents_data_list)
             incidents_data_list ([], PStr t) w1 = (Inr (incidents, x), w2)"
    and r: "r = PList (sort_key incident_name incidents)"
    by auto
  from fetch_incidents_loop_str [OF nonempty loop] obtain ds where
    s: "subseq ds incidents_data_list" and a: "list_all2 (delivered_from h) ds incidents"
    and g: "list_all (\<lambda>d. \<exists>c. info_get d ''creationDate'' = PStr c \<and> t < c) ds"
    by auto
  have n: "\<forall>d c. d \<in> set incidents_data_list \<and> info_get d ''creationDate'' = PStr c
                      \<and> c \<le> t \<longrightarrow> d \<notin> set ds"
    using g by (auto simp: list_all_iff)
  have k: "\<forall>dd c u incs last_data w0.
               t \<le> u \<and> info_get (PDict dd) ''creationDate'' = PStr c \<and> c \<le> t \<longrightarrow>
               fetch_incidents_round h last_data (PDict dd) (incs, PStr u) w0
                 = (Inr (incs, PStr u), w0)"
  proof (intro allI impI)
    fix dd c u incs last_data w0
    assume h: "t \<le> u \<and> info_get (PDict dd) ''creationDate'' = PStr c \<and> c \<le> t"
    with nonempty have "u \<noteq> []" by auto
    moreover from h have "c \<le> u" by auto
    ultimately show "fetch_incidents_round h last_data (PDict dd) (incs, PStr u) w0
                 = (Inr (incs, PStr u), w0)"
      using h by (intro fetch_incidents_round_skips) auto
  qed
  from r s a g n k show ?thesis by blast
qed

text \<open>
  The theorem at the same run: the incident of 1 March, created before the
  watermark \<open>2022-03-05T00:00:00\<close>, is not among the records the delivered
  incidents are built from, and its round leaves the state as it is.
\<close>

theorem fetch_incidents_delivers_after_watermark_witness:
  "fst (fetch_incidents fetch_host world0 ''2022-03-05T00:00:00'' 10 [] None None None False)
     = Inr (PList [PDict [(''rawJSON'', PStr ''{}''),
                          (''name'', PStr ''Symantec DLP Incident ID 1''),
                          (''occurred'', PStr ''2022-03-06T15:23:53'')]])
   \<and> first_last_update_time fetch_host [] ''2022-03-05T00:00:00''
       = Inr (PStr ''2022-03-05T00:00:00'')
   \<and> ''2022-03-05T00:00:00'' \<noteq> []
   \<and> map_incident_severities None = Inr PNone
   \<and> map_incident_types None = Inr PNone
   \<and> fst (get_incidents_request fetch_host world0 (PStr ''2022-03-05T00:00:00'')
             (str_list_value None) PNone PNone (PInt 10) (PBool True))
       = Inr (PDict [(''incidents'', PList [PDict earlier_incident, PDict example_incident])])
   \<and> and_then (py_get (PDict [(''incidents'',
                                PList [PDict earlier_incident, PDict example_incident])])
                 ''incidents'' (PList [])) py_iter
       = Inr [PDict earlier_incident, PDict example_incident]
   \<and> info_get (PDict earlier_incident) ''creationDate'' = PStr ''2022-03-01T10:00:00''
   \<and> ''2022-03-01T10:00:00'' \<le> ''2022-03-05T00:00:00''
   \<and> (\<exists>ds incidents.
         PList [PDict [(''rawJSON'', PStr ''{}''),
                       (''name'', PStr ''Symantec DLP Incident ID 1''),
                       (''occurred'', PStr ''2022-03-06T15:23:53'')]]
           = PList (sort_key incident_name incidents)
         \<and> subseq ds [PDict earlier_incident, PDict example_incident]
         \<and> list_all2 (delivered_from fetch_host) ds incidents
         \<and> PDict earlier_incident \<notin> set ds)
   \<and> fetch_incidents_round fetch_host (PDict example_incident) (PDict earlier_incident)
         ([], PStr ''2022-03-05T00:00:00'') world0
       = (Inr ([], PStr ''2022-03-05T00:00:00''), world0)"
proof -
  let ?t = "''2022-03-05T00:00:00''"
  let ?c = "''2022-03-01T10:00:00''"
  let ?run = "fetch_incidents fetch_host world0 ?t 10 [] None None None False"
  let ?r = "PList [PDict [(''rawJSON'', PStr ''{}''),
                          (''name'', PStr ''Symantec DLP Incident ID 1''),
                          (''occurred'', PStr ''2022-03-06T15:23:53'')]]"
  let ?req = "get_incidents_request fetch_host world0 (PStr ?t) (str_list_value None) PNone PNone
                (PInt 10) (PBool True)"
  let ?res = "PDict [(''incidents'', PList [PDict earlier_incident, PDict example_incident])]"
  let ?xs = "[PDict earlier_incident, PDict example_incident]"
  have a: "fst ?run = Inr ?r" by code_simp
  have b: "first_last_update_time fetch_host [] ?t = Inr (PStr ?t)" by code_simp
  have n: "?t \<noteq> []" by simp
  have s: "map_incident_severities None = Inr PNone" by code_simp
  have t: "map_incident_types None = Inr PNone" by code_simp
  have q: "fst ?req = Inr ?res" by code_simp
  have l: "and_then (py_get ?res ''incidents'' (PList [])) py_iter = Inr ?xs" by code_simp
  have d: "info_get (PDict earlier_incident) ''creationDate'' = PStr ?c" by code_simp
  have o: "?c \<le> ?t" by code_simp
  from a have run: "?run = (Inr ?r, snd ?run)" by (simp add: prod_eq_iff)
  from q have req: "?req = (Inr ?res, snd ?req)" by (simp add: prod_eq_iff)
  note main = fetch_incidents_delivers_after_watermark [OF run b n s t req l]
  from main obtain ds incidents where
    r: "?r = PList (sort_key incident_name incidents)"
    and sub: "subseq ds ?xs"
    and del: "list_all2 (delivered_from fetch_host) ds incidents"
    and old: "\<forall>d c. d \<in> set ?xs \<and> info_get d ''creationDate'' = PStr c \<and> c \<le> ?t
                \<longrightarrow> d \<notin> set ds"
    by blast
  have "PDict earlier_incident \<in> set ?xs" by simp
  with old d o have notin: "PDict earlier_incident \<notin> set ds" by blast
  from r sub del notin have e:
    "\<exists>ds incidents. ?r = PList (sort_key incident_name incidents) \<and> subseq ds ?xs
       \<and> list_all2 (delivered_from fetch_host) ds incidents
       \<and> PDict earlier_incident \<notin> set ds"
    by blast
  from main have k: "\<forall>dd c u incs last_data w0.
      ?t \<le> u \<and> info_get (PDict dd) ''creationDate'' = PStr c \<and> c \<le> ?t \<longrightarrow>
      fetch_incidents_round fetch_host last_data (PDict dd) (incs, PStr u) w0
        = (Inr (incs, PStr u), w0)"
    by (rule conjunct2)
  have "?t \<le> ?t" by (rule order_refl)
  with k d o have f: "fetch_incidents_round fetch_host (PDict example_incident)
      (PDict earlier_incident) ([], PStr ?t) world0 = (Inr ([], PStr ?t), world0)"
    by blast
  from a b n s t q l d o e f show ?thesis by (intro conjI)
qed

subsection \<open>The stored watermark on the next poll\<close>

lemma incidents_request_filter_of_creation_date:
  "truthy x \<Longrightarrow>
     dict_get (incidents_request_data x status_id severity incident_type limit order_by)
       ''filter'' PNone
     = PDict [(''booleanOperator'', PStr ''AND''), (''filterType'', PStr ''booleanLogic''),
              (''filters'',
               PList (create_filter_dict ''localDateTime'' ''creationDate'' (PList [x]) ''GT''
                      # incidents_request_filters PNone status_id severity incident_type))]"
  by (simp add: incidents_request_data_def incidents_request_filters_def dict_get_def)

lemma incidents_request_data_falsy_creation_date:
  "\<not> truthy x \<Longrightarrow>
     incidents_request_data x status_id severity incident_type limit order_by
     = incidents_request_data PNone status_id severity incident_type limit order_by"
  by (simp add: incidents_request_data_def incidents_request_filters_def)

text \<open>
  Claim C4, as amended. The stored watermark is the filter of the next poll, when
  it is not empty. Take a run of \<open>fetch_incidents\<close> that is not a test and
  completes, with \<open>start\<close> the \<open>last_update_time\<close> it starts from, \<open>res\<close> and
  \<open>w1\<close> the answer to its incidents request and the world after it, and
  \<open>incidents_data_list\<close> the incidents of \<open>res\<close>. The run stores the
  \<open>last_update_time\<close> \<open>x\<close> that its loop over \<open>incidents_data_list\<close> ends with,
  as the only entry of the last run, under \<open>last_incident_creation_time\<close>. A
  later call with that last run (on any host, in any world, with any parameters
  whose severities and types are known) starts from \<open>x\<close> and first posts the
  incidents request built with \<open>x\<close> as \<open>creation_date\<close>. When \<open>x\<close> is truthy the
  body of that request has a \<open>filter\<close> whose first entry is the \<open>localDateTime\<close>
  filter \<open>creationDate GT [x]\<close>; when \<open>x\<close> is falsy the body is the one of a
  request without \<open>creation_date\<close>.
\<close>

theorem fetch_incidents_stored_watermark_is_next_filter:
  assumes run: "fetch_incidents h w fetch_time fetch_limit last_run incident_types
                  incident_status_id incident_severities False = (Inr r, w')"
    and sev0: "map_incident_severities incident_severities = Inr severities0"
    and typs0: "map_incident_types incident_types = Inr types0"
    and start: "first_last_update_time h last_run fetch_time = Inr start"
    and req: "get_incidents_request h w start (str_list_value incident_status_id)
                severities0 types0 (PInt fetch_limit) (PBool True) = (Inr res, w1)"
    and lst: "and_then (py_get res ''incidents'' (PList [])) py_iter = Inr incidents_data_list"
    and sev: "map_incident_severities next_severities = Inr severities"
    and typs: "map_incident_types next_types = Inr types"
  shows "\<exists>incidents x w2.
           fetch_incidents_loop h
             (if incidents_data_list = [] then PNone else last incidents_data_list)
             incidents_data_list ([], start) w1 = (Inr (incidents, x), w2)
           \<and> last_run_store w' = [(''last_incident_creation_time'', x)]
           \<and> first_last_update_time next_h (last_run_store w') next_fetch_time = Inr x
           \<and> (\<exists>more.
                 requests (snd (fetch_incidents next_h next_w next_fetch_time next_limit
                                  (last_run_store w') next_types next_status_id
                                  next_severities next_is_test))
                 = requests next_w
                   @ (''POST'', incidents_url,
                      Some (PDict (incidents_request_data x (str_list_value next_status_id)
                                     severities types (PInt next_limit) (PBool True))))
                   # more)
           \<and> (truthy x \<longrightarrow>
                 dict_get (incidents_request_data x (str_list_value next_status_id)
                             severities types (PInt next_limit) (PBool True))
                   ''filter'' PNone
                 = PDict [(''booleanOperator'', PStr ''AND''),
                          (''filterType'', PStr ''booleanLogic''),
                          (''filters'',
                           PList (create_filter_dict ''localDateTime'' ''creationDate''
                                    (PList [x]) ''GT''
                                  # incidents_request_filters PNone
                                      (str_list_value next_status_id) severities types))])
           \<and> (\<not> truthy x \<longrightarrow>
                 incidents_request_data x (str_list_value next_status_id) severities types
                   (PInt next_limit) (PBool True)
                 = incidents_request_data PNone (str_list_value next_status_id) severities
                     types (PInt next_limit) (PBool True))"
proof -
  from fetch_incidents_completes [OF run] sev0 typs0 start req lst
  obtain incidents x w2 where
    loop: "fetch_incidents_loop h
             (if incidents_data_list = [] then PNone else last incidents_data_list)
             incidents_data_list ([], start) w1 = (Inr (incidents, x), w2)"
    and w': "w' = w2\<lparr>last_run_store := [(''last_incident_creation_time'', x)]\<rparr>"
    by auto
  from w' have store: "last_run_store w' = [(''last_incident_creation_time'', x)]" by simp
  have first: "first_last_update_time next_h (last_run_store w') next_fetch_time = Inr x"
    by (simp add: store first_last_update_time_def dict_get_def)
  note b = fetch_incidents_first_request [OF sev typs first, where w = next_w
      and fetch_limit = next_limit and incident_status_id = next_status_id
      and is_test = next_is_test]
  have c: "truthy x \<longrightarrow>
             dict_get (incidents_request_data x (str_list_value next_status_id)
                         severities types (PInt next_limit) (PBool True))
               ''filter'' PNone
             = PDict [(''booleanOperator'', PStr ''AND''),
                      (''filterType'', PStr ''booleanLogic''),
                      (''filters'',
                       PList (create_filter_dict ''localDateTime'' ''creationDate''
                                (PList [x]) ''GT''
                              # incidents_request_filters PNone
                                  (str_list_value next_status_id) severities types))]"
    by (rule impI) (rule incidents_request_filter_of_creation_date)
  have d: "\<not> truthy x \<longrightarrow>
             incidents_request_data x (str_list_value next_status_id) severities types
               (PInt next_limit) (PBool True)
             = incidents_request_data PNone (str_list_value next_status_id) severities
                 types (PInt next_limit) (PBool True)"
    by (rule impI) (rule incidents_request_data_falsy_creation_date)
  from loop store first b c d show ?thesis by blast
qed

text \<open>
  The theorem at the run from \<open>2022-03-05T00:00:00\<close> whose loop ends with, and
  which stores, \<open>2022-03-06T15:23:53\<close>: the next call posts a request whose only
  filter is \<open>creationDate GT ['2022-03-06T15:23:53']\<close>.
\<close>

theorem fetch_incidents_stored_watermark_is_next_filter_witness:
  "fst (fetch_incidents fetch_host world0 ''2022-03-05T00:00:00'' 10 [] None None None False)
     = Inr (PList [PDict [(''rawJSON'', PStr ''{}''),
                          (''name'', PStr ''Symantec DLP Incident ID 1''),
                          (''occurred'', PStr ''2022-03-06T15:23:53'')]])
   \<and> map_incident_severities None = Inr PNone
   \<and> map_incident_types None = Inr PNone
   \<and> first_last_update_time fetch_host [] ''2022-03-05T00:00:00''
       = Inr (PStr ''2022-03-05T00:00:00'')
   \<and> fst (get_incidents_request fetch_host world0 (PStr ''2022-03-05T00:00:00'')
             (str_list_value None) PNone PNone (PInt 10) (PBool True))
       = Inr (PDict [(''incidents'', PList [PDict earlier_incident, PDict example_incident])])
   \<and> and_then (py_get (PDict [(''incidents'',
                                PList [PDict earlier_incident, PDict example_incident])])
                 ''incidents'' (PList [])) py_iter
       = Inr [PDict earlier_incident, PDict example_incident]
   \<and> fst (fetch_incidents_loop fetch_host (PDict example_incident)
                  [PDict earlier_incident, PDict example_incident]
                  ([], PStr ''2022-03-05T00:00:00'')
                  (snd (get_incidents_request fetch_host world0 (PStr ''2022-03-05T00:00:00'')
                          (str_list_value None) PNone PNone (PInt 10) (PBool True))))
       = Inr ([PDict [(''rawJSON'', PStr ''{}''),
                      (''name'', PStr ''Symantec DLP Incident ID 1''),
                      (''occurred'', PStr ''2022-03-06T15:23:53'')]],
              PStr ''2022-03-06T15:23:53'')
   \<and> last_run_store
         (snd (fetch_incidents fetch_host world0 ''2022-03-05T00:00:00'' 10 [] None None None
                 False))
       = [(''last_incident_creation_time'', PStr ''2022-03-06T15:23:53'')]
   \<and> truthy (PStr ''2022-03-06T15:23:53'')
   \<and> (\<exists>more.
         requests
           (snd (fetch_incidents fetch_host
                   (snd (fetch_incidents fetch_host world0 ''2022-03-05T00:00:00'' 10 [] None
                           None None False))
                   ''2022-03-05T00:00:00'' 10
                   (last_run_store
                      (snd (fetch_incidents fetch_host world0 ''2022-03-05T00:00:00'' 10 []
                              None None None False)))
                   None None None False))
         = requests
             (snd (fetch_incidents fetch_host world0 ''2022-03-05T00:00:00'' 10 [] None None
                     None False))
           @ (''POST'', incidents_url,
              Some (PDict (incidents_request_data (PStr ''2022-03-06T15:23:53'') PNone PNone
                             PNone (PInt 10) (PBool True))))
           # more)
   \<and> dict_get (incidents_request_data (PStr ''2022-03-06T15:23:53'') PNone PNone PNone
                 (PInt 10) (PBool True))
         ''filter'' PNone
       = PDict [(''booleanOperator'', PStr ''AND''), (''filterType'', PStr ''booleanLogic''),
                (''filters'',
                 PList [PDict [(''filterType'', PStr ''localDateTime''),
                               (''operandOne'', PDict [(''name'', PStr ''creationDate'')]),
                               (''operandTwoValues'', PList [PStr ''2022-03-06T15:23:53'']),
                               (''operator'', PStr ''GT'')]])]"
proof -
  let ?t = "''2022-03-05T00:00:00''"
  let ?c = "''2022-03-06T15:23:53''"
  let ?run = "fetch_incidents fetch_host world0 ?t 10 [] None None None False"
  let ?i1 = "PDict [(''rawJSON'', PStr ''{}''),
                    (''name'', PStr ''Symantec DLP Incident ID 1''),
                    (''occurred'', PStr ''2022-03-06T15:23:53'')]"
  let ?req = "get_incidents_request fetch_host world0 (PStr ?t) (str_list_value None) PNone PNone
                (PInt 10) (PBool True)"
  let ?res = "PDict [(''incidents'', PList [PDict earlier_incident, PDict example_incident])]"
  let ?xs = "[PDict earlier_incident, PDict example_incident]"
  let ?loop = "fetch_incidents_loop fetch_host (PDict example_incident) ?xs ([], PStr ?t)
                 (snd ?req)"
  have a: "fst ?run = Inr (PList [?i1])" by code_simp
  have s: "map_incident_severities None = Inr PNone" by code_simp
  have t: "map_incident_types None = Inr PNone" by code_simp
  have b: "first_last_update_time fetch_host [] ?t = Inr (PStr ?t)" by code_simp
  have q: "fst ?req = Inr ?res" by code_simp
  have l: "and_then (py_get ?res ''incidents'' (PList [])) py_iter = Inr ?xs" by code_simp
  have lp: "fst ?loop = Inr ([?i1], PStr ?c)" by code_simp
  have c: "last_run_store (snd ?run) = [(''last_incident_creation_time'', PStr ?c)]"
    by code_simp
  have u: "truthy (PStr ?c)" by simp
  have v: "str_list_value None = PNone" by code_simp
  have f: "create_filter_dict ''localDateTime'' ''creationDate'' (PList [PStr ?c]) ''GT''
             # incidents_request_filters PNone PNone PNone PNone
           = [PDict [(''filterType'', PStr ''localDateTime''),
                     (''operandOne'', PDict [(''name'', PStr ''creationDate'')]),
                     (''operandTwoValues'', PList [PStr ?c]),
                     (''operator'', PStr ''GT'')]]"
    by code_simp
  from a have run: "?run = (Inr (PList [?i1]), snd ?run)" by (simp add: prod_eq_iff)
  from q have req: "?req = (Inr ?res, snd ?req)" by (simp add: prod_eq_iff)
  from fetch_incidents_stored_watermark_is_next_filter
         [OF run s t b req l s t, where next_h = fetch_host and next_fetch_time = ?t
            and next_w = "snd ?run" and next_limit = 10 and next_status_id = None
            and next_is_test = False]
  obtain incidents x w2 where
    lx: "fetch_incidents_loop fetch_host (if ?xs = [] then PNone else last ?xs) ?xs
           ([], PStr ?t) (snd ?req) = (Inr (incidents, x), w2)"
    and x: "last_run_store (snd ?run) = [(''last_incident_creation_time'', x)]"
    and p: "\<exists>more.
         requests (snd (fetch_incidents fetch_host (snd ?run) ?t 10
                          (last_run_store (snd ?run)) None None None False))
         = requests (snd ?run)
           @ (''POST'', incidents_url,
              Some (PDict (incidents_request_data x (str_list_value None) PNone PNone
                             (PInt 10) (PBool True))))
           # more"
    and qq: "truthy x \<longrightarrow>
         dict_get (incidents_request_data x (str_list_value None) PNone PNone (PInt 10)
                     (PBool True)) ''filter'' PNone
         = PDict [(''booleanOperator'', PStr ''AND''), (''filterType'', PStr ''booleanLogic''),
                  (''filters'',
                   PList (create_filter_dict ''localDateTime'' ''creationDate'' (PList [x])
                            ''GT''
                          # incidents_request_filters PNone (str_list_value None) PNone
                              PNone))]"
    by blast
  from x c have xc: "x = PStr ?c" by simp
  from lx have "fst ?loop = Inr (incidents, x)" by simp
  with xc have lp': "fst ?loop = Inr (incidents, PStr ?c)" by simp
  with lp have lp'': "fst ?loop = Inr ([?i1], PStr ?c)" by simp
  note p' = p [unfolded xc v]
  from qq u have q': "dict_get (incidents_request_data (PStr ?c) PNone PNone PNone (PInt 10)
                     (PBool True)) ''filter'' PNone
         = PDict [(''booleanOperator'', PStr ''AND''), (''filterType'', PStr ''booleanLogic''),
                  (''filters'',
                   PList [PDict [(''filterType'', PStr ''localDateTime''),
                               (''operandOne'', PDict [(''name'', PStr ''creationDate'')]),
                               (''operandTwoValues'', PList [PStr ?c]),
                               (''operator'', PStr ''GT'')]])]"
    unfolding xc v f by blast
  from a s t b q l lp'' c u p' q' show ?thesis by (intro conjI)
qed

text \<open>
  An empty watermark is stored and sent without a filter: with the first fetch
  time \<open>''\<close> and a vendor that has no incidents, the run stores \<open>''\<close>, and the
  next call, with that last run, posts the same request as the first: its body
  has the keys \<open>limit\<close>, \<open>select\<close> and \<open>orderBy\<close> only, no \<open>filter\<close>.
\<close>

theorem fetch_incidents_empty_watermark_counterexample:
  "fst (fetch_incidents quiet_host world0 [] 10 [] (Some []) (Some []) (Some []) False)
     = Inr (PList [])
   \<and> last_run_store
         (snd (fetch_incidents quiet_host world0 [] 10 [] (Some []) (Some []) (Some []) False))
       = [(''last_incident_creation_time'', PStr [])]
   \<and> requests
         (snd (fetch_incidents quiet_host
                 (snd (fetch_incidents quiet_host world0 [] 10 [] (Some []) (Some [])
                         (Some []) False))
                 [] 10 [(''last_incident_creation_time'', PStr [])]
                 (Some []) (Some []) (Some []) False))
       = [(''POST'', ''/ProtectManager/webservices/v2/incidents'',
           Some (PDict [(''limit'', PInt 10), (''select'', INCIDENTS_LIST_BODY),
                        (''orderBy'',
                         PList [PDict [(''order'', PStr ''ASC''),
                                       (''field'', PDict [(''name'', PStr ''creationDate'')])]])])),
          (''POST'', ''/ProtectManager/webservices/v2/incidents'',
           Some (PDict [(''limit'', PInt 10), (''select'', INCIDENTS_LIST_BODY),
                        (''orderBy'',
                         PList [PDict [(''order'', PStr ''ASC''),
                                       (''field'', PDict [(''name'', PStr ''creationDate'')])]])]))]
   \<and> map_of [(''limit'', PInt 10), (''select'', INCIDENTS_LIST_BODY),
              (''orderBy'',
               PList [PDict [(''order'', PStr ''ASC''),
                             (''field'', PDict [(''name'', PStr ''creationDate'')])]])]
         ''filter''
       = None"
proof -
  have a: "fst (fetch_incidents quiet_host world0 [] 10 [] (Some []) (Some []) (Some []) False)
             = Inr (PList [])"
    by code_simp
  have b: "last_run_store
             (snd (fetch_incidents quiet_host world0 [] 10 [] (Some []) (Some []) (Some [])
                     False))
           = [(''last_incident_creation_time'', PStr [])]"
    by code_simp
  have c: "requests
         (snd (fetch_incidents quiet_host
                 (snd (fetch_incidents quiet_host world0 [] 10 [] (Some []) (Some [])
                         (Some []) False))
                 [] 10 [(''last_incident_creation_time'', PStr [])]
                 (Some []) (Some []) (Some []) False))
       = [(''POST'', ''/ProtectManager/webservices/v2/incidents'',
           Some (PDict [(''limit'', PInt 10), (''select'', INCIDENTS_LIST_BODY),
                        (''orderBy'',
                         PList [PDict [(''order'', PStr ''ASC''),
                                       (''field'', PDict [(''name'', PStr ''creationDate'')])]])])),
          (''POST'', ''/ProtectManager/webservices/v2/incidents'',
           Some (PDict [(''limit'', PInt 10), (''select'', INCIDENTS_LIST_BODY),
                        (''orderBy'',
                         PList [PDict [(''order'', PStr ''ASC''),
                                       (''field'', PDict [(''name'', PStr ''creationDate'')])]])]))]"
    by code_simp
  have d: "map_of [(''limit'', PInt 10), (''select'', INCIDENTS_LIST_BODY),
              (''orderBy'',
               PList [PDict [(''order'', PStr ''ASC''),
                             (''field'', PDict [(''name'', PStr ''creationDate'')])]])]
             ''filter''
           = None"
    by simp
  from a b c d show ?thesis by (intro conjI)
qed

subsection \<open>Incident history\<close>

lemma map_of_filter_other_keys:
  "map_of (filter (\<lambda>(k', v). k' \<noteq> k) d) j = (if j = k then None else map_of d j)"
  by (induction d) auto

lemma py_pop_returns:
  "py_pop e k = Inr p \<Longrightarrow>
     \<exists>d. e = PDict d \<and> map_of d k \<noteq> None \<and> p = PDict (filter (\<lambda>(k', v). k' \<noteq> k) d)"
  by (cases e) (auto split: if_splits)

lemma pop_history_keys_returns:
  assumes "pop_history_keys e = Inr p"
  shows "has_history_keys e"
proof -
  from assms obtain h1 h2 where
    a: "py_pop e ''incidentId'' = Inr h1"
    and b: "py_pop h1 ''incidentHistoryActionI18nKey'' = Inr h2"
    and c: "py_pop h2 ''internationalized'' = Inr p"
    by (auto simp: pop_history_keys_def and_then_def split: sum.splits)
  from py_pop_returns [OF a] obtain d where
    d: "e = PDict d" "map_of d ''incidentId'' \<noteq> None"
       "h1 = PDict (filter (\<lambda>(k', v). k' \<noteq> ''incidentId'') d)"
    by blast
  from py_pop_returns [OF b] d(3) have
    k2: "map_of d ''incidentHistoryActionI18nKey'' \<noteq> None"
    and h2: "h2 = PDict (filter (\<lambda>(k', v). k' \<noteq> ''incidentHistoryActionI18nKey'')
                           (filter (\<lambda>(k', v). k' \<noteq> ''incidentId'') d))"
    by (auto simp: map_of_filter_other_keys simp del: filter_filter split: if_splits)
  from py_pop_returns [OF c] h2 have "map_of d ''internationalized'' \<noteq> None"
    by (auto simp: map_of_filter_other_keys simp del: filter_filter split: if_splits)
  with d k2 show ?thesis by (simp add: has_history_keys_def)
qed

lemma pop_history_keys_of_dict:
  "(has_history_keys (PDict d) \<and> (\<exists>p. pop_history_keys (PDict d) = Inr p))
   \<or> (\<not> has_history_keys (PDict d)
       \<and> (\<exists>k \<in> set [''incidentId'', ''incidentHistoryActionI18nKey'', ''internationalized''].
             pop_history_keys (PDict d) = Inl (KeyError (PStr k))))"
  by (auto simp: pop_history_keys_def and_then_def has_history_keys_def
      map_of_filter_other_keys simp del: filter_filter)

lemma pops_raise_KeyError:
  "\<forall>x \<in> set xs. \<exists>d. x = PDict d \<Longrightarrow> \<exists>x \<in> set xs. \<not> has_history_keys x \<Longrightarrow>
     \<exists>k \<in> set [''incidentId'', ''incidentHistoryActionI18nKey'', ''internationalized''].
       for_each (\<lambda>incident_history.
                   and_then (pop_history_keys incident_history) (\<lambda>popped. Inr [popped])) xs
       = Inl (KeyError (PStr k))"
proof (induction xs)
  case Nil
  then show ?case by simp
next
  case (Cons x xs)
  from Cons.prems(1) obtain d where x: "x = PDict d" by auto
  from pop_history_keys_of_dict [of d] show ?case
  proof (elim disjE conjE exE bexE)
    fix p
    assume has: "has_history_keys (PDict d)" and p: "pop_history_keys (PDict d) = Inr p"
    from has x Cons.prems(2) have "\<exists>x \<in> set xs. \<not> has_history_keys x" by auto
    moreover from Cons.prems(1) have "\<forall>x \<in> set xs. \<exists>d. x = PDict d" by simp
    ultimately obtain k where
      "k \<in> set [''incidentId'', ''incidentHistoryActionI18nKey'', ''internationalized'']"
      "for_each (\<lambda>incident_history.
                   and_then (pop_history_keys incident_history) (\<lambda>popped. Inr [popped])) xs
       = Inl (KeyError (PStr k))"
      using Cons.IH by blast
    with x p show ?thesis by (intro bexI [of _ k]) (simp_all add: and_then_def)
  next
    fix k
    assume "k \<in> set [''incidentId'', ''incidentHistoryActionI18nKey'', ''internationalized'']"
      and "pop_history_keys (PDict d) = Inl (KeyError (PStr k))"
    with x show ?thesis by (intro bexI [of _ k]) (simp_all add: and_then_def)
  qed
qed

lemma pops_return:
  "for_each (\<lambda>incident_history.
               and_then (pop_history_keys incident_history) (\<lambda>popped. Inr [popped])) xs
     = Inr ys \<Longrightarrow> list_all has_history_keys xs"
proof (induction xs arbitrary: ys)
  case Nil
  show ?case by simp
next
  case (Cons x xs)
  from Cons.prems obtain p zs where
    p: "pop_history_keys x = Inr p"
    and zs: "for_each (\<lambda>incident_history.
               and_then (pop_history_keys incident_history) (\<lambda>popped. Inr [popped])) xs
             = Inr zs"
    by (auto simp: and_then_def split: sum.splits)
  from pop_history_keys_returns [OF p] Cons.IH [OF zs] show ?case by simp
qed

lemma get_context_incident_history_returns:
  assumes "get_context_incident_history h xs = Inr c"
  shows "xs \<noteq> [] \<and> list_all has_history_keys xs"
proof (cases xs)
  case Nil
  with assms show ?thesis by (simp add: get_context_incident_history_def)
next
  case (Cons x rest)
  with assms obtain ys where
    "for_each (\<lambda>incident_history.
               and_then (pop_history_keys incident_history) (\<lambda>popped. Inr [popped])) xs
     = Inr ys"
    by (auto simp: get_context_incident_history_def and_then_def split: sum.splits)
  from pops_return [OF this] Cons show ?thesis by simp
qed

lemma get_incident_history_command_returns:
  assumes run: "get_incident_history_command h w args = (Inr res, w')"
  shows "\<exists>incident_id limit incident_history_result sliced.
           arg_to_number h (dict_get args ''incident_id'' PNone) = Inr incident_id
           \<and> arg_to_number h (dict_get args ''limit'' (PInt 50)) = Inr limit
           \<and> get_incident_history_request h w incident_id = (Inr incident_history_result, w')
           \<and> py_slice_to incident_history_result limit = Inr sliced
           \<and> sliced \<noteq> [] \<and> list_all has_history_keys sliced"
proof -
  obtain incident_id where
    a: "arg_to_number h (dict_get args ''incident_id'' PNone) = Inr incident_id"
    using run by (cases "arg_to_number h (dict_get args ''incident_id'' PNone)")
      (simp_all add: get_incident_history_command_def)
  obtain limit where b: "arg_to_number h (dict_get args ''limit'' (PInt 50)) = Inr limit"
    using run a by (cases "arg_to_number h (dict_get args ''limit'' (PInt 50))")
      (simp_all add: get_incident_history_command_def)
  obtain rr w1 where c0: "get_incident_history_request h w incident_id = (rr, w1)"
    by (cases "get_incident_history_request h w incident_id")
  obtain hist where c1: "rr = Inr hist"
    using run a b c0 by (cases rr) (simp_all add: get_incident_history_command_def)
  from run a b c0 c1 have w1: "w1 = w'"
    by (simp add: get_incident_history_command_def)
  obtain sliced where d: "py_slice_to hist limit = Inr sliced"
    using run a b c0 c1 by (cases "py_slice_to hist limit")
      (simp_all add: get_incident_history_command_def and_then_def)
  obtain hr where e: "get_readable_output_incident_history h sliced = Inr hr"
    using run a b c0 c1 d by (cases "get_readable_output_incident_history h sliced")
      (simp_all add: get_incident_history_command_def and_then_def)
  obtain ctx where f: "get_context_incident_history h sliced = Inr ctx"
    using run a b c0 c1 d e by (cases "get_context_incident_history h sliced")
      (simp_all add: get_incident_history_command_def and_then_def)
  from get_context_incident_history_returns [OF f] a b c0 c1 w1 d show ?thesis by blast
qed

text \<open>
  Claim C9. The incident-history command needs a non-empty history whose entries
  carry the three keys, after the truncation to \<open>limit\<close>.
  \<open>get_context_incident_history\<close> raises \<open>IndexError\<close> on the empty list; it
  raises on every list with an entry that lacks one of \<open>incidentId\<close>,
  \<open>incidentHistoryActionI18nKey\<close> and \<open>internationalized\<close>, and the exception is
  the \<open>KeyError\<close> of \<open>pop\<close> for one of these keys when the entries are dicts and
  \<open>arg_to_number\<close> accepts the id of the first. When
  \<open>get_incident_history_command\<close> returns, the list it passed on, the slice
  \<open>[:limit]\<close> of what the vendor returned, is not empty and all its entries carry
  the three keys.
\<close>

theorem get_incident_history_command_needs_keys:
  "get_context_incident_history h [] = Inl IndexError
   \<and> ((\<exists>x \<in> set xs. \<not> has_history_keys x) \<longrightarrow>
        (\<exists>e. get_context_incident_history h xs = Inl e))
   \<and> (xs = PDict first_history # rest
        \<and> arg_to_number h (dict_get first_history ''incidentId'' PNone) = Inr n
        \<and> (\<forall>x \<in> set xs. \<exists>d. x = PDict d) \<and> (\<exists>x \<in> set xs. \<not> has_history_keys x) \<longrightarrow>
        (\<exists>k \<in> set [''incidentId'', ''incidentHistoryActionI18nKey'', ''internationalized''].
           get_context_incident_history h xs = Inl (KeyError (PStr k))))
   \<and> (get_incident_history_command h w args = (Inr res, w') \<longrightarrow>
        (\<exists>incident_id limit incident_history_result sliced.
           arg_to_number h (dict_get args ''incident_id'' PNone) = Inr incident_id
           \<and> arg_to_number h (dict_get args ''limit'' (PInt 50)) = Inr limit
           \<and> get_incident_history_request h w incident_id = (Inr incident_history_result, w')
           \<and> py_slice_to incident_history_result limit = Inr sliced
           \<and> sliced \<noteq> [] \<and> list_all has_history_keys sliced))"
proof (intro conjI impI)
  show "get_context_incident_history h [] = Inl IndexError"
    by (simp add: get_context_incident_history_def)
next
  assume missing: "\<exists>x \<in> set xs. \<not> has_history_keys x"
  show "\<exists>e. get_context_incident_history h xs = Inl e"
  proof (cases "get_context_incident_history h xs")
    case (Inl e)
    then show ?thesis by blast
  next
    case (Inr c)
    from get_context_incident_history_returns [OF Inr] missing show ?thesis
      by (auto simp: list_all_iff)
  qed
next
  assume a: "xs = PDict first_history # rest
        \<and> arg_to_number h (dict_get first_history ''incidentId'' PNone) = Inr n
        \<and> (\<forall>x \<in> set xs. \<exists>d. x = PDict d) \<and> (\<exists>x \<in> set xs. \<not> has_history_keys x)"
  then obtain k where
    k: "k \<in> set [''incidentId'', ''incidentHistoryActionI18nKey'', ''internationalized'']"
    and r: "for_each (\<lambda>incident_history.
                   and_then (pop_history_keys incident_history) (\<lambda>popped. Inr [popped])) xs
            = Inl (KeyError (PStr k))"
    using pops_raise_KeyError [of xs] by blast
  from a r have "get_context_incident_history h xs = Inl (KeyError (PStr k))"
    by (simp add: get_context_incident_history_def and_then_def)
  with k show "\<exists>k \<in> set [''incidentId'', ''incidentHistoryActionI18nKey'',
                         ''internationalized''].
           get_context_incident_history h xs = Inl (KeyError (PStr k))"
    by blast
next
  assume "get_incident_history_command h w args = (Inr res, w')"
  then show "\<exists>incident_id limit incident_history_result sliced.
           arg_to_number h (dict_get args ''incident_id'' PNone) = Inr incident_id
           \<and> arg_to_number h (dict_get args ''limit'' (PInt 50)) = Inr limit
           \<and> get_incident_history_request h w incident_id = (Inr incident_history_result, w')
           \<and> py_slice_to incident_history_result limit = Inr sliced
           \<and> sliced \<noteq> [] \<and> list_all has_history_keys sliced"
    by (rule get_incident_history_command_returns)
qed

text \<open>
  The theorem at the history of two entries, the second without two of the keys:
  \<open>get_context_incident_history\<close> raises the \<open>KeyError\<close> of
  \<open>incidentHistoryActionI18nKey\<close> on the whole list, and the command with
  \<open>limit=1\<close> returns, from a slice whose only entry carries the keys.
\<close>

theorem get_incident_history_command_needs_keys_witness:
  "arg_to_number history_host (dict_get complete_history ''incidentId'' PNone) = Inr (PInt 1)
   \<and> \<not> has_history_keys (PDict partial_history)
   \<and> get_context_incident_history history_host [PDict complete_history, PDict partial_history]
       = Inl (KeyError (PStr ''incidentHistoryActionI18nKey''))
   \<and> fst (get_incident_history_command history_host world0
             [(''incident_id'', PStr ''1''), (''limit'', PStr ''1'')])
       = Inr \<lparr>readable_output = Some ''Symantec DLP Incident 1 history results'',
              outputs_prefix = ''SymantecDLP.IncidentHistory'',
              outputs_key_field = ''incidentId'',
              outputs =
                PList [PDict [(''ID'', PInt 1),
                              (''incidentHistory'',
                               PList [PDict [(''incidentHistoryDate'',
                                              PStr ''2022-03-06T15:23:53''),
                                             (''incidentHistoryAction'', PStr ''SET_STATUS''),
                                             (''dlpUserName'', PStr ''Administrator'')]])]]\<rparr>
   \<and> (\<exists>sliced.
         py_slice_to (PList [PDict complete_history, PDict partial_history]) (PInt 1)
           = Inr sliced
         \<and> sliced \<noteq> [] \<and> list_all has_history_keys sliced)"
proof -
  let ?xs = "[PDict complete_history, PDict partial_history]"
  let ?args = "[(''incident_id'', PStr ''1''), (''limit'', PStr ''1'')]"
  let ?run = "get_incident_history_command history_host world0 ?args"
  let ?res = "\<lparr>readable_output = Some ''Symantec DLP Incident 1 history results'',
              outputs_prefix = ''SymantecDLP.IncidentHistory'',
              outputs_key_field = ''incidentId'',
              outputs =
                PList [PDict [(''ID'', PInt 1),
                              (''incidentHistory'',
                               PList [PDict [(''incidentHistoryDate'',
                                              PStr ''2022-03-06T15:23:53''),
                                             (''incidentHistoryAction'', PStr ''SET_STATUS''),
                                             (''dlpUserName'', PStr ''Administrator'')]])]]\<rparr>"
  note main = get_incident_history_command_needs_keys
      [where h = history_host and xs = ?xs and first_history = complete_history
         and rest = "[PDict partial_history]" and n = "PInt 1" and w = world0
         and args = ?args and res = ?res and w' = "snd ?run"]
  have a: "arg_to_number history_host (dict_get complete_history ''incidentId'' PNone)
             = Inr (PInt 1)"
    by code_simp
  have b: "\<not> has_history_keys (PDict partial_history)" by code_simp
  have c: "get_context_incident_history history_host ?xs
             = Inl (KeyError (PStr ''incidentHistoryActionI18nKey''))"
    by code_simp
  have d: "fst ?run = Inr ?res" by code_simp
  then have run: "?run = (Inr ?res, snd ?run)" by (simp add: prod_eq_iff)
  have i: "arg_to_number history_host (dict_get ?args ''incident_id'' PNone) = Inr (PInt 1)"
    by code_simp
  have l: "arg_to_number history_host (dict_get ?args ''limit'' (PInt 50)) = Inr (PInt 1)"
    by code_simp
  have q: "fst (get_incident_history_request history_host world0 (PInt 1)) = Inr (PList ?xs)"
    by code_simp
  from main run obtain incident_id limit incident_history_result sliced where
    s: "arg_to_number history_host (dict_get ?args ''incident_id'' PNone) = Inr incident_id"
       "arg_to_number history_host (dict_get ?args ''limit'' (PInt 50)) = Inr limit"
       "get_incident_history_request history_host world0 incident_id
          = (Inr incident_history_result, snd ?run)"
       "py_slice_to incident_history_result limit = Inr sliced"
       "sliced \<noteq> []" "list_all has_history_keys sliced"
    by blast
  from s(1) i have "incident_id = PInt 1" by simp
  moreover from s(2) l have "limit = PInt 1" by simp
  ultimately have "incident_history_result = PList ?xs" using s(3) q by simp
  with s \<open>limit = PInt 1\<close> have e: "\<exists>sliced. py_slice_to (PList ?xs) (PInt 1) = Inr sliced
         \<and> sliced \<noteq> [] \<and> list_all has_history_keys sliced"
    by blast
  from main a b have "\<exists>k \<in> set [''incidentId'', ''incidentHistoryActionI18nKey'',
                           ''internationalized''].
           get_context_incident_history history_host ?xs = Inl (KeyError (PStr k))"
    by simp
  from a b c d e show ?thesis by (intro conjI)
qed

text \<open>
  The command returns although the vendor's list has an entry without the keys:
  with \<open>limit=1\<close> only the first entry of the two is read.
\<close>

theorem get_incident_history_command_truncates_counterexample:
  "fst (get_incident_history_request history_host world0 (PInt 1))
     = Inr (PList [PDict complete_history, PDict partial_history])
   \<and> map_of partial_history ''incidentHistoryActionI18nKey'' = None
   \<and> map_of partial_history ''internationalized'' = None
   \<and> fst (get_incident_history_command history_host world0
             [(''incident_id'', PStr ''1''), (''limit'', PStr ''1'')])
       = Inr \<lparr>readable_output = Some ''Symantec DLP Incident 1 history results'',
              outputs_prefix = ''SymantecDLP.IncidentHistory'',
              outputs_key_field = ''incidentId'',
              outputs =
                PList [PDict [(''ID'', PInt 1),
                              (''incidentHistory'',
                               PList [PDict [(''incidentHistoryDate'',
                                              PStr ''2022-03-06T15:23:53''),
                                             (''incidentHistoryAction'', PStr ''SET_STATUS''),
                                             (''dlpUserName'', PStr ''Administrator'')]])]]\<rparr>"
proof -
  have a: "fst (get_incident_history_request history_host world0 (PInt 1))
             = Inr (PList [PDict complete_history, PDict partial_history])"
    by code_simp
  have b: "map_of partial_history ''incidentHistoryActionI18nKey'' = None" by code_simp
  have c: "map_of partial_history ''internationalized'' = None" by code_simp
  have d: "fst (get_incident_history_command history_host world0
             [(''incident_id'', PStr ''1''), (''limit'', PStr ''1'')])
       = Inr \<lparr>readable_output = Some ''Symantec DLP Incident 1 history results'',
              outputs_prefix = ''SymantecDLP.IncidentHistory'',
              outputs_key_field = ''incidentId'',
              outputs =
                PList [PDict [(''ID'', PInt 1),
                              (''incidentHistory'',
                               PList [PDict [(''incidentHistoryDate'',
                                              PStr ''2022-03-06T15:23:53''),
                                             (''incidentHistoryAction'', PStr ''SET_STATUS''),
                                             (''dlpUserName'', PStr ''Administrator'')]])]]\<rparr>"
    by code_simp
  from a b c d show ?thesis by (intro conjI)
qed

end
